theory Spec2Isabelle
  imports Main "HOL-Library.Word" "HOL-Library.Sublist"
begin

section \<open>JavaScript values and primitives used by the CLI\<close>

text \<open>
  The sources are TypeScript, executed as JavaScript.  Strings are modelled as
  \<^typ>\<open>string\<close> (code units restricted to one byte), a \<^verbatim>\<open>Uint8Array\<close> as a
  list of \<^typ>\<open>8 word\<close>, and a dynamically typed value as \<open>jsval\<close>.  A number
  is an integer-valued double (\<open>Num\<close>, always the result of rounding), an
  infinity or \<open>NaN\<close>; fractions and the sign of zero are left out.
\<close>

type_synonym byte = "8 word"

datatype jsval =
    Undefined
  | Null
  | Bool bool
  | Num int
  | Inf
  | NegInf
  | NaN
  | Str string
  | Arr "jsval list"
  | Obj "(string \<times> jsval) list"

text \<open>\<^verbatim>\<open>StrWhiteSpaceChar\<close>, restricted to one-byte code units.\<close>

definition is_ws :: "char \<Rightarrow> bool" where
  "is_ws c = (of_char c \<in> {9, 10, 11, 12, 13, 32, 160 :: nat})"

definition digit_val :: "char \<Rightarrow> nat option" where
  "digit_val c =
     (let n = (of_char c :: nat) in
      if 48 \<le> n \<and> n \<le> 57 then Some (n - 48)
      else if 97 \<le> n \<and> n \<le> 122 then Some (n - 87)
      else if 65 \<le> n \<and> n \<le> 90 then Some (n - 55)
      else None)"

definition is_radix_digit :: "nat \<Rightarrow> char \<Rightarrow> bool" where
  "is_radix_digit R c = (case digit_val c of Some d \<Rightarrow> d < R | None \<Rightarrow> False)"

definition digits_value :: "nat \<Rightarrow> string \<Rightarrow> nat" where
  \<comment> \<open>the positional value of a string of digits\<close>
  "digits_value R z =
     foldl (\<lambda>acc c. case digit_val c of Some d \<Rightarrow> acc * R + d | None \<Rightarrow> acc) 0 z"

text \<open>
  The number a mathematical integer becomes (\<^verbatim>\<open>Number::fromMathematicalValue\<close>,
  round to nearest, ties to even): itself below \<open>2^53\<close>; above, the nearest
  multiple of \<open>2^shift\<close> with a 53-bit quotient, and an infinity from \<open>2^1024\<close> on.
\<close>

function double_shift :: "nat \<Rightarrow> nat" where
  "double_shift a = (if a < 2 ^ 53 then 0 else Suc (double_shift (a div 2)))"
  by pat_completeness auto
termination
  by (relation "measure id") auto

declare double_shift.simps [simp del]

definition round_double :: "int \<Rightarrow> jsval" where
  "round_double n =
     (let a = nat \<bar>n\<bar>
      in if a < 2 ^ 53 then Num n
         else
           let shift = double_shift a;
               q = a div 2 ^ shift;
               r = a mod 2 ^ shift;
               half = 2 ^ (shift - 1);
               q' = (if half < r \<or> (r = half \<and> odd q) then q + 1 else q);
               m = q' * 2 ^ shift
           in if 2 ^ 1024 \<le> m then (if n < 0 then NegInf else Inf)
              else Num (if n < 0 then - int m else int m))"

text \<open>
  \<^verbatim>\<open>parseInt(string, radix)\<close> (ECMA-262, 19.2.5); radix \<open>0\<close> stands for an
  omitted radix.  Leading white space is skipped, a sign is read, a
  \<^verbatim>\<open>0x\<close>/\<^verbatim>\<open>0X\<close> prefix is removed when the radix is 16 or omitted, and the
  longest prefix of digits is converted and rounded; no digit at all gives
  \<open>NaN\<close>.
\<close>

definition parseInt :: "string \<Rightarrow> nat \<Rightarrow> jsval" where
  "parseInt input radix =
     (let s = dropWhile is_ws input;
          neg = (case s of c # _ \<Rightarrow> c = CHR ''-'' | [] \<Rightarrow> False);
          s1 = (case s of c # r \<Rightarrow> if c = CHR ''+'' \<or> c = CHR ''-'' then r else s | [] \<Rightarrow> []);
          strip = (radix = 0 \<or> radix = 16);
          R0 = (if radix = 0 then 10 else radix);
          pre = (strip \<and> (take 2 s1 = ''0x'' \<or> take 2 s1 = ''0X''));
          s2 = (if pre then drop 2 s1 else s1);
          R = (if pre then 16 else R0);
          z = takeWhile (is_radix_digit R) s2
      in if radix \<noteq> 0 \<and> (radix < 2 \<or> 36 < radix) then NaN
         else if z = [] then NaN
         else round_double ((if neg then - 1 else 1) * int (digits_value R z)))"

text \<open>The digit table \<^verbatim>\<open>0123456789abcdefghijklmnopqrstuvwxyz\<close>, by code unit.\<close>

definition digit_char :: "nat \<Rightarrow> char" where
  "digit_char d = (if d < 10 then char_of (48 + d) else char_of (87 + d))"

text \<open>\<^verbatim>\<open>Number.prototype.toString(16)\<close> on a non-negative integer.\<close>

function toString16 :: "nat \<Rightarrow> string" where
  "toString16 n =
     (if n < 16 then [digit_char n] else toString16 (n div 16) @ [digit_char (n mod 16)])"
  by pat_completeness auto
termination
  by (relation "measure id") auto

declare toString16.simps [simp del]

definition padStart :: "nat \<Rightarrow> char \<Rightarrow> string \<Rightarrow> string" where
  "padStart n c s = replicate (n - length s) c @ s"

text \<open>Storing a number into a \<^verbatim>\<open>Uint8Array\<close> element (\<^verbatim>\<open>ToUint8\<close>).\<close>

fun to_uint8 :: "jsval \<Rightarrow> byte" where
  "to_uint8 (Num n) = word_of_int n"
| "to_uint8 _ = 0"

section \<open>src/utils/crypto.ts\<close>

text \<open>\<^verbatim>\<open>hex.replace(/^0x/, '')\<close>\<close>

definition strip0x :: "string \<Rightarrow> string" where
  "strip0x hex = (if take 2 hex = ''0x'' then drop 2 hex else hex)"

definition hexToBytes :: "string \<Rightarrow> byte list" where
  "hexToBytes hex =
     (let hexWithoutPrefix = strip0x hex
      in map (\<lambda>i. to_uint8 (parseInt (take 2 (drop (i * 2) hexWithoutPrefix)) 16))
             [0 ..< length hexWithoutPrefix div 2])"

definition bytesToHex :: "byte list \<Rightarrow> string" where
  "bytesToHex bytes = concat (map (\<lambda>b. padStart 2 (CHR ''0'') (toString16 (unat b))) bytes)"

text \<open>The characters \<^verbatim>\<open>[0-9a-f]\<close>.\<close>

definition is_lower_hex :: "char \<Rightarrow> bool" where
  "is_lower_hex c =
     (let n = (of_char c :: nat) in (48 \<le> n \<and> n \<le> 57) \<or> (97 \<le> n \<and> n \<le> 102))"

definition slice_from :: "int \<Rightarrow> 'a list \<Rightarrow> 'a list" where
  \<comment> \<open>\<^verbatim>\<open>xs.slice(k)\<close>: a negative start counts from the end, clamped at 0.\<close>
  "slice_from k xs = (if k < 0 then drop (nat (int (length xs) + k)) xs else drop (nat k) xs)"

datatype error = Error string

text \<open>
  The primitives of \<^verbatim>\<open>@noble/curves\<close> and \<^verbatim>\<open>@noble/hashes\<close> are parameters:
  \<open>getPublicKey\<close> throws on a key that is not a valid scalar.
\<close>

record crypto =
  secp256k1_getPublicKey :: "byte list \<Rightarrow> bool \<Rightarrow> error + byte list"
  keccak_256 :: "byte list \<Rightarrow> byte list"

text \<open>
  \<^verbatim>\<open>getAddressFromPrivateKey\<close>, the same text in \<^verbatim>\<open>utils/crypto.ts\<close> and in
  \<^verbatim>\<open>utils/swarm.ts\<close>, as are \<^verbatim>\<open>hexToBytes\<close> and \<^verbatim>\<open>bytesToHex\<close>.
\<close>

definition getAddressFromPrivateKey :: "crypto \<Rightarrow> string \<Rightarrow> error + byte list" where
  "getAddressFromPrivateKey c privateKeyHex =
     (let privateKeyBytes = hexToBytes privateKeyHex
      in case secp256k1_getPublicKey c privateKeyBytes False of
           Inl e \<Rightarrow> Inl e
         | Inr publicKey \<Rightarrow>
             (let publicKeyHash = keccak_256 c (slice_from 1 publicKey)
              in Inr (slice_from (- 20) publicKeyHash)))"

section \<open>More JavaScript: truthiness, property access, addition\<close>

fun truthy :: "jsval \<Rightarrow> bool" where
  "truthy Undefined = False"
| "truthy Null = False"
| "truthy (Bool b) = b"
| "truthy (Num n) = (n \<noteq> 0)"
| "truthy Inf = True"
| "truthy NegInf = True"
| "truthy NaN = False"
| "truthy (Str s) = (s \<noteq> [])"
| "truthy (Arr _) = True"
| "truthy (Obj _) = True"

definition js_or :: "jsval \<Rightarrow> jsval \<Rightarrow> jsval" where
  \<comment> \<open>\<^verbatim>\<open>a || b\<close>\<close>
  "js_or a b = (if truthy a then a else b)"

definition js_nullish :: "jsval \<Rightarrow> jsval \<Rightarrow> jsval" where
  \<comment> \<open>\<^verbatim>\<open>a ?? b\<close>\<close>
  "js_nullish a b = (if a = Undefined \<or> a = Null then b else a)"

definition opt_val :: "string option \<Rightarrow> jsval" where
  \<comment> \<open>an optional string, absent as \<^verbatim>\<open>undefined\<close>\<close>
  "opt_val x = (case x of None \<Rightarrow> Undefined | Some s \<Rightarrow> Str s)"

definition truthy_str :: "string option \<Rightarrow> string option" where
  \<comment> \<open>the string of an optional string that passes \<^verbatim>\<open>if (x)\<close>\<close>
  "truthy_str x = (case x of Some s \<Rightarrow> if s \<noteq> [] then Some s else None | None \<Rightarrow> None)"

definition str_or :: "string option \<Rightarrow> string \<Rightarrow> string" where
  \<comment> \<open>\<^verbatim>\<open>x || d\<close> for an optional string and a string\<close>
  "str_or x d = (case truthy_str x of Some s \<Rightarrow> s | None \<Rightarrow> d)"

definition get_prop :: "(string \<times> jsval) list \<Rightarrow> string \<Rightarrow> jsval" where
  \<comment> \<open>reading a property of an object literal\<close>
  "get_prop obj k = (case map_of obj k of Some v \<Rightarrow> v | None \<Rightarrow> Undefined)"

definition opt_prop :: "jsval \<Rightarrow> string \<Rightarrow> jsval" where
  \<comment> \<open>\<^verbatim>\<open>v?.k\<close> for a name \<open>k\<close> that no prototype defines\<close>
  "opt_prop v k = (case v of Obj kvs \<Rightarrow> get_prop kvs k | _ \<Rightarrow> Undefined)"

function toString10 :: "nat \<Rightarrow> string" where
  "toString10 n =
     (if n < 10 then [digit_char n] else toString10 (n div 10) @ [digit_char (n mod 10)])"
  by pat_completeness auto
termination
  by (relation "measure id") auto

declare toString10.simps [simp del]

fun intercalate :: "string \<Rightarrow> string list \<Rightarrow> string" where
  "intercalate sep [] = []"
| "intercalate sep [x] = x"
| "intercalate sep (x # y # r) = x @ sep @ intercalate sep (y # r)"

text \<open>
  \<^verbatim>\<open>ToString\<close>.  A number is written in decimal digits, as JavaScript does for
  integers of magnitude below \<open>10^21\<close>; the exponent notation of larger ones is
  left out.
\<close>

fun js_toString :: "jsval \<Rightarrow> string" where
  "js_toString Undefined = ''undefined''"
| "js_toString Null = ''null''"
| "js_toString (Bool b) = (if b then ''true'' else ''false'')"
| "js_toString (Num n) = (if n < 0 then CHR ''-'' # toString10 (nat (- n)) else toString10 (nat n))"
| "js_toString Inf = ''Infinity''"
| "js_toString NegInf = ''-Infinity''"
| "js_toString NaN = ''NaN''"
| "js_toString (Str s) = s"
| "js_toString (Arr xs) =
     intercalate '','' (map (\<lambda>x. if x = Undefined \<or> x = Null then [] else js_toString x) xs)"
| "js_toString (Obj _) = ''[object Object]''"

definition js_toPrimitive :: "jsval \<Rightarrow> jsval" where
  "js_toPrimitive v = (case v of Arr _ \<Rightarrow> Str (js_toString v) | Obj _ \<Rightarrow> Str (js_toString v) | _ \<Rightarrow> v)"

fun is_Str :: "jsval \<Rightarrow> bool" where
  "is_Str (Str _) = True"
| "is_Str _ = False"

text \<open>\<^verbatim>\<open>ToNumber\<close> of a primitive that is not a string.\<close>

fun js_toNumber :: "jsval \<Rightarrow> jsval" where
  "js_toNumber Null = Num 0"
| "js_toNumber (Bool b) = Num (if b then 1 else 0)"
| "js_toNumber (Num n) = Num n"
| "js_toNumber Inf = Inf"
| "js_toNumber NegInf = NegInf"
| "js_toNumber _ = NaN"

text \<open>The sum of two numbers: the exact sum, rounded.\<close>

fun js_add :: "jsval \<Rightarrow> jsval \<Rightarrow> jsval" where
  "js_add (Num x) (Num y) = round_double (x + y)"
| "js_add Inf NegInf = NaN"
| "js_add NegInf Inf = NaN"
| "js_add Inf (Num _) = Inf"
| "js_add Inf Inf = Inf"
| "js_add (Num _) Inf = Inf"
| "js_add NegInf (Num _) = NegInf"
| "js_add NegInf NegInf = NegInf"
| "js_add (Num _) NegInf = NegInf"
| "js_add _ _ = NaN"

definition js_plus :: "jsval \<Rightarrow> jsval \<Rightarrow> jsval" where
  \<comment> \<open>\<^verbatim>\<open>a + b\<close>: concatenation when either primitive is a string, else addition\<close>
  "js_plus a b =
     (let pa = js_toPrimitive a; pb = js_toPrimitive b
      in if is_Str pa \<or> is_Str pb then Str (js_toString pa @ js_toString pb)
         else js_add (js_toNumber pa) (js_toNumber pb))"

section \<open>External collaborators and effects\<close>

record rpc_request =
  rpc_url :: string
  rpc_chain :: string
  rpc_address :: string
  rpc_function :: string
  rpc_inputs :: "string list"
  rpc_outputs :: "string list"
  rpc_mutability :: string
  rpc_args :: "string list"

record http_response =
  status :: nat
  headers :: "(string \<times> string) list"
  data :: jsval

record uploader_config =
  uc_gatewayUrl :: string
  uc_batchId :: string
  uc_privateKey :: string
  uc_depth :: jsval

record write_request =
  vaultPrivateKey :: jsval
  signerPrivateKey :: jsval
  contentReference :: jsval
  feedIndex :: jsval
  wr_batchId :: jsval
  wr_depth :: jsval
  wr_gatewayUrl :: jsval
  wr_topic :: "byte list"

text \<open>
  What a run does to the outside: calls handed to viem (\<open>ReadContract\<close>), axios
  (\<open>HttpGet\<close>, with its timeout) and the stamping library (\<open>UploadFiles\<close>,
  \<open>WriteFeedUpdate\<close>), and the warnings shown on the spinner.
\<close>

datatype event =
    ReadContract rpc_request
  | HttpGet string nat
  | UploadFiles uploader_config "string option" bool
  | WriteFeedUpdate write_request
  | SpinnerWarn string

text \<open>
  The outcome of every external call is a parameter; a run makes each call at
  most once, so a function of the call's arguments is enough.  \<open>readContract\<close>
  yields the decoded \<^verbatim>\<open>uint8\<close>, which viem delivers as a number and on which
  \<^verbatim>\<open>Number\<close> is the identity, or the exception thrown (revert, encoding or
  transport failure).  \<open>axios_get\<close> yields the response whatever its status, or
  the exception of a transport failure; the rejection of a status is modelled
  with \<^verbatim>\<open>validateStatus\<close> below.  The stamping library
  \<^verbatim>\<open>@hostasis/swarm-stamper\<close> and the constant of \<^verbatim>\<open>utils/urls.js\<close> are not among
  the sources and are parameters as well.
\<close>

record env =
  crypto_of :: crypto
  readContract :: "rpc_request \<Rightarrow> error + int"
  axios_get :: "string \<Rightarrow> error + http_response"
  loadFiles :: "string \<Rightarrow> error + string list"
  uploadFiles :: "uploader_config \<Rightarrow> string list \<Rightarrow> error + string"
  writeFeedUpdate :: "write_request \<Rightarrow> error + unit"
  lib_normalizeProjectSlug :: "jsval \<Rightarrow> error + string"
  lib_deriveProjectKey :: "jsval \<Rightarrow> string \<Rightarrow> error + string"
  DEFAULT_GATEWAY_URL :: string

text \<open>A computation yields the events it caused and a value or the exception thrown.\<close>

type_synonym 'a io = "event list \<times> (error + 'a)"

definition io_return :: "'a \<Rightarrow> 'a io" where
  "io_return x = ([], Inr x)"

definition io_throw :: "error \<Rightarrow> 'a io" where
  "io_throw e = ([], Inl e)"

definition io_lift :: "error + 'a \<Rightarrow> 'a io" where
  \<comment> \<open>a local call that may throw\<close>
  "io_lift r = ([], r)"

definition io_call :: "event \<Rightarrow> error + 'a \<Rightarrow> 'a io" where
  \<comment> \<open>an external call: recorded, then its outcome\<close>
  "io_call ev r = ([ev], r)"

definition io_emit :: "event \<Rightarrow> unit io" where
  "io_emit ev = ([ev], Inr ())"

definition io_bind :: "'a io \<Rightarrow> ('a \<Rightarrow> 'b io) \<Rightarrow> 'b io" where
  "io_bind m f =
     (case m of
        (es, Inl e) \<Rightarrow> (es, Inl e)
      | (es, Inr x) \<Rightarrow> (case f x of (es', r) \<Rightarrow> (es @ es', r)))"

definition io_catch :: "'a io \<Rightarrow> (error \<Rightarrow> 'a io) \<Rightarrow> 'a io" where
  \<comment> \<open>\<^verbatim>\<open>try { m } catch (e) { h e }\<close>\<close>
  "io_catch m h =
     (case m of
        (es, Inl e) \<Rightarrow> (case h e of (es', r) \<Rightarrow> (es @ es', r))
      | (es, Inr x) \<Rightarrow> (es, Inr x))"

definition io_when :: "bool \<Rightarrow> unit io \<Rightarrow> unit io" where
  "io_when b m = (if b then m else io_return ())"

section \<open>utils/swarm.ts\<close>

text \<open>
  The file that \<^verbatim>\<open>upload.ts\<close> and \<^verbatim>\<open>feed.ts\<close> import as \<^verbatim>\<open>../utils/swarm.js\<close>; among the
  sources it is \<^verbatim>\<open>src/unnamed/part_002\<close>.
\<close>

definition POSTAGE_STAMP_ADDRESS :: string where
  "POSTAGE_STAMP_ADDRESS = ''0x45a1502382541Cd610CC9068e88727426b696293''"

definition batchDepth_request :: "string \<Rightarrow> string \<Rightarrow> rpc_request" where
  \<comment> \<open>the client on chain \<^verbatim>\<open>gnosis\<close> with transport \<^verbatim>\<open>http(rpcUrl)\<close>, and
      \<^verbatim>\<open>BATCH_DEPTH_ABI\<close>\<close>
  "batchDepth_request rpcUrl prefixedBatchId =
     \<lparr>rpc_url = rpcUrl, rpc_chain = ''gnosis'', rpc_address = POSTAGE_STAMP_ADDRESS,
      rpc_function = ''batchDepth'', rpc_inputs = [''bytes32''], rpc_outputs = [''uint8''],
      rpc_mutability = ''view'', rpc_args = [prefixedBatchId]\<rparr>"

definition fetchBatchDepth_try :: "env \<Rightarrow> string \<Rightarrow> string \<Rightarrow> jsval io" where
  "fetchBatchDepth_try env batchId rpcUrl =
     (let prefixedBatchId = (if take 2 batchId = ''0x'' then batchId else ''0x'' @ batchId);
          req = batchDepth_request rpcUrl prefixedBatchId
      in io_bind (io_call (ReadContract req) (readContract env req))
           (\<lambda>depth. io_return (Num depth)))"

definition fetchBatchDepth :: "env \<Rightarrow> string \<Rightarrow> string option \<Rightarrow> jsval io" where
  "fetchBatchDepth env batchId rpcUrl_arg =
     (let rpcUrl = (case rpcUrl_arg of None \<Rightarrow> ''https://rpc.gnosis.gateway.fm'' | Some u \<Rightarrow> u)
      in io_catch (fetchBatchDepth_try env batchId rpcUrl) (\<lambda>error. io_return Null))"

definition header :: "http_response \<Rightarrow> string \<Rightarrow> jsval" where
  "header response k = opt_val (map_of (headers response) k)"

text \<open>
  The handling of an accepted response, lines 101 to 129 of that file.  The
  parameter \<^verbatim>\<open>vaultPrivateKey\<close> of \<^verbatim>\<open>fetchNextFeedIndex\<close> is called \<open>vaultKey\<close> below.
\<close>

definition indexOfResponse :: "http_response \<Rightarrow> jsval" where
  "indexOfResponse response =
     (if status response = 404 then Num 0
      else
        let feedIndexNext = js_or (header response ''swarm-feed-index-next'')
                                  (opt_prop (data response) ''feedIndexNext'')
        in if feedIndexNext \<noteq> Undefined then
             (case feedIndexNext of Str s \<Rightarrow> parseInt s 16 | _ \<Rightarrow> feedIndexNext)
           else
             let feedIndex = js_or (header response ''swarm-feed-index'')
                                   (opt_prop (data response) ''feedIndex'')
             in if feedIndex \<noteq> Undefined then
                  (case feedIndex of
                     Str s \<Rightarrow> js_plus (parseInt s 16) (Num 1)
                   | _ \<Rightarrow> js_plus feedIndex (Num 1))
                else Null)"

definition validateStatus :: "nat \<Rightarrow> bool" where
  "validateStatus st = (st = 200 \<or> st = 404)"

definition feedUrl :: "string \<Rightarrow> byte list \<Rightarrow> byte list \<Rightarrow> string" where
  "feedUrl gatewayUrl owner topic =
     gatewayUrl @ ''/feeds/'' @ bytesToHex owner @ ''/'' @ bytesToHex topic"

definition fetchNextFeedIndex_try :: "env \<Rightarrow> string \<Rightarrow> string \<Rightarrow> byte list \<Rightarrow> jsval io" where
  "fetchNextFeedIndex_try env vaultKey gatewayUrl topic =
     io_bind (io_lift (getAddressFromPrivateKey (crypto_of env) vaultKey)) (\<lambda>owner.
       let url = feedUrl gatewayUrl owner topic
       in io_bind (io_call (HttpGet url 5000) (axios_get env url)) (\<lambda>response.
            if \<not> validateStatus (status response)
            then io_throw (Error ''Request failed with status code'')
            else io_return (indexOfResponse response)))"

definition fetchNextFeedIndex :: "env \<Rightarrow> string \<Rightarrow> string \<Rightarrow> byte list option \<Rightarrow> jsval io" where
  "fetchNextFeedIndex env vaultKey gatewayUrl topic_arg =
     (let topic = (case topic_arg of None \<Rightarrow> replicate 32 0 | Some t \<Rightarrow> t)
      in io_catch (fetchNextFeedIndex_try env vaultKey gatewayUrl topic) (\<lambda>error. io_return Null))"

section \<open>commands/feed.ts and commands/upload.ts\<close>

text \<open>
  Both files are parts of the bundle \<^verbatim>\<open>src/README.md\<close>; line numbers below are lines
  of that bundle.  Option values are what commander hands to the action: strings,
  absent when the option was not given.
\<close>

definition is_hex_char :: "char \<Rightarrow> bool" where
  \<comment> \<open>\<^verbatim>\<open>[0-9a-fA-F]\<close>\<close>
  "is_hex_char c =
     (let n = (of_char c :: nat)
      in (48 \<le> n \<and> n \<le> 57) \<or> (97 \<le> n \<and> n \<le> 102) \<or> (65 \<le> n \<and> n \<le> 70))"

definition hex64 :: "string \<Rightarrow> bool" where
  "hex64 s = (length s = 64 \<and> list_all is_hex_char s)"

definition matches_hex64 :: "string \<Rightarrow> bool" where
  \<comment> \<open>\<^verbatim>\<open>s.match(/^(0x)?[0-9a-fA-F]{64}$/)\<close> is not null\<close>
  "matches_hex64 s = ((take 2 s = ''0x'' \<and> hex64 (drop 2 s)) \<or> hex64 s)"

text \<open>\<^verbatim>\<open>x ? hexToBytes(x) : new Uint8Array(32)\<close>\<close>

definition topic_of :: "jsval \<Rightarrow> byte list io" where
  "topic_of t =
     (if truthy t then
        (case t of
           Str h \<Rightarrow> io_return (hexToBytes h)
         | _ \<Rightarrow> io_throw (Error ''TypeError: hex.replace is not a function''))
      else io_return (replicate 32 0))"

text \<open>
  \<^verbatim>\<open>updateFeed\<close> of \<^verbatim>\<open>feed.ts\<close>.  Its argument is the object literal the caller
  builds; a property the caller did not set reads as \<^verbatim>\<open>undefined\<close>.
\<close>

definition updateFeed :: "env \<Rightarrow> (string \<times> jsval) list \<Rightarrow> unit io" where
  "updateFeed env options =
     io_bind (topic_of (get_prop options ''topic'')) (\<lambda>topic.
       let index = js_nullish (get_prop options ''index'') (Num 0);
           depth = js_nullish (get_prop options ''depth'') (Num 20);
           gateway = js_or (get_prop options ''gateway'') (Str ''https://bzz.sh'')
       in io_bind
            (if truthy (get_prop options ''project'') then
               io_bind (io_lift (lib_normalizeProjectSlug env (get_prop options ''project'')))
                 (\<lambda>projectSlug.
                    io_bind (io_lift (lib_deriveProjectKey env (get_prop options ''vaultKey'')
                                        projectSlug))
                      (\<lambda>privateKey. io_return (Str privateKey)))
             else io_return Undefined)
            (\<lambda>signer.
               let req = \<lparr>vaultPrivateKey = get_prop options ''vaultKey'',
                          signerPrivateKey = signer,
                          contentReference = get_prop options ''reference'',
                          feedIndex = index,
                          wr_batchId = get_prop options ''batchId'',
                          wr_depth = depth,
                          wr_gatewayUrl = gateway,
                          wr_topic = topic\<rparr>
               in io_call (WriteFeedUpdate req) (writeFeedUpdate env req)))"

record feed_options =
  fo_reference :: string
  fo_key :: string
  fo_gateway :: "string option"
  fo_index :: "string option"
  fo_topic :: "string option"
  fo_project :: "string option"
  fo_quiet :: bool
  fo_batchId :: "string option"
  fo_depth :: "string option"

text \<open>Lines 870 to 882 (\<^verbatim>\<open>feed.ts\<close>): the signer key and the key that owns the feed.\<close>

definition feed_projectKeys :: "env \<Rightarrow> feed_options \<Rightarrow> (jsval \<times> string) io" where
  "feed_projectKeys env options =
     (case truthy_str (fo_project options) of
        None \<Rightarrow> io_return (Undefined, fo_key options)
      | Some project \<Rightarrow>
          io_bind (io_lift (lib_normalizeProjectSlug env (Str project))) (\<lambda>projectSlug.
            io_bind (io_lift (lib_deriveProjectKey env (Str (fo_key options)) projectSlug))
              (\<lambda>privateKey. io_return (Str privateKey, privateKey))))"

text \<open>Lines 884 to 909 (\<^verbatim>\<open>feed.ts\<close>).\<close>

definition feed_resolveDepth :: "env \<Rightarrow> feed_options \<Rightarrow> string \<Rightarrow> jsval io" where
  "feed_resolveDepth env options batchId =
     (case truthy_str (fo_depth options) of
        Some d \<Rightarrow> io_return (parseInt d 0)
      | None \<Rightarrow>
          io_bind (fetchBatchDepth env batchId
                     (Some (str_or (fo_gateway options) (DEFAULT_GATEWAY_URL env))))
            (\<lambda>fetchedDepth.
               if fetchedDepth \<noteq> Null then io_return fetchedDepth
               else io_bind
                      (io_when (\<not> fo_quiet options)
                         (io_emit (SpinnerWarn ''Could not fetch batch depth, using default: 20'')))
                      (\<lambda>_. io_return (Num 20))))"

text \<open>Lines 911 to 935 (\<^verbatim>\<open>feed.ts\<close>).\<close>

definition feed_resolveIndex :: "env \<Rightarrow> feed_options \<Rightarrow> string \<Rightarrow> byte list \<Rightarrow> jsval io" where
  "feed_resolveIndex env options feedOwnerKey topic =
     (case truthy_str (fo_index options) of
        Some i \<Rightarrow> io_return (parseInt i 0)
      | None \<Rightarrow>
          io_bind (fetchNextFeedIndex env feedOwnerKey
                     (str_or (fo_gateway options) (DEFAULT_GATEWAY_URL env)) (Some topic))
            (\<lambda>fetchedIndex.
               if fetchedIndex \<noteq> Null then io_return fetchedIndex
               else io_bind
                      (io_when (\<not> fo_quiet options)
                         (io_emit (SpinnerWarn ''Could not fetch feed index, using default: 0'')))
                      (\<lambda>_. io_return (Num 0))))"

text \<open>
  The action of \<^verbatim>\<open>feed update\<close> (\<^verbatim>\<open>createFeedCommand\<close>).  A result \<open>Inl e\<close> is the
  \<^verbatim>\<open>catch\<close> branch: the message of \<open>e\<close> is printed and the process exits with
  status 1.  Console output other than spinner warnings is left out.
\<close>

definition feed_action :: "env \<Rightarrow> feed_options \<Rightarrow> unit io" where
  "feed_action env options =
     (if \<not> matches_hex64 (fo_reference options) then
        io_throw (Error ''Invalid reference format (expected 64 hex characters)'')
      else if \<not> matches_hex64 (fo_key options) then
        io_throw (Error ''Invalid key format (expected 64 hex characters)'')
      else
        (case truthy_str (fo_batchId options) of
           None \<Rightarrow> io_throw (Error ''--batch-id is required for feed updates'')
         | Some batchId \<Rightarrow>
             let topic = (case truthy_str (fo_topic options) of
                            Some t \<Rightarrow> hexToBytes t
                          | None \<Rightarrow> replicate 32 0)
             in io_bind (feed_projectKeys env options) (\<lambda>(signer, feedOwnerKey).
                  io_bind (feed_resolveDepth env options batchId) (\<lambda>depth.
                    io_bind (feed_resolveIndex env options feedOwnerKey topic) (\<lambda>index.
                      let req = \<lparr>vaultPrivateKey = Str (fo_key options),
                                 signerPrivateKey = signer,
                                 contentReference = Str (fo_reference options),
                                 feedIndex = index,
                                 wr_batchId = Str batchId,
                                 wr_depth = depth,
                                 wr_gatewayUrl =
                                   Str (str_or (fo_gateway options) (DEFAULT_GATEWAY_URL env)),
                                 wr_topic = topic\<rparr>
                      in io_bind (io_call (WriteFeedUpdate req) (writeFeedUpdate env req)) (\<lambda>_.
                           if fo_quiet options then io_return ()
                           else io_bind
                                  (io_lift (getAddressFromPrivateKey (crypto_of env) feedOwnerKey))
                                  (\<lambda>owner. io_return ())))))))"

record upload_options =
  uo_batchId :: string
  uo_key :: string
  uo_gateway :: "string option"
  uo_indexDocument :: "string option"
  uo_spa :: bool
  uo_quiet :: bool
  uo_gnosisRpc :: "string option"
  uo_project :: "string option"
  uo_feed :: bool
  uo_feedIndex :: "string option"
  uo_depth :: "string option"

text \<open>Lines 587 to 612 (\<^verbatim>\<open>upload.ts\<close>).\<close>

definition upload_resolveDepth :: "env \<Rightarrow> upload_options \<Rightarrow> jsval io" where
  "upload_resolveDepth env options =
     (case truthy_str (uo_depth options) of
        Some d \<Rightarrow> io_return (parseInt d 0)
      | None \<Rightarrow>
          io_bind (fetchBatchDepth env (uo_batchId options) (uo_gnosisRpc options))
            (\<lambda>fetchedDepth.
               if fetchedDepth \<noteq> Null then io_return fetchedDepth
               else io_bind
                      (io_when (\<not> uo_quiet options)
                         (io_emit (SpinnerWarn ''Could not fetch batch depth, using default: 20'')))
                      (\<lambda>_. io_return (Num 20))))"

text \<open>Lines 650 to 659 (\<^verbatim>\<open>upload.ts\<close>).\<close>

definition upload_feedOwnerKey :: "env \<Rightarrow> upload_options \<Rightarrow> string io" where
  "upload_feedOwnerKey env options =
     (case truthy_str (uo_project options) of
        None \<Rightarrow> io_return (uo_key options)
      | Some project \<Rightarrow>
          io_bind (io_lift (lib_normalizeProjectSlug env (Str project))) (\<lambda>projectSlug.
            io_lift (lib_deriveProjectKey env (Str (uo_key options)) projectSlug)))"

text \<open>Lines 661 to 684 (\<^verbatim>\<open>upload.ts\<close>).\<close>

definition upload_resolveIndex :: "env \<Rightarrow> upload_options \<Rightarrow> string \<Rightarrow> jsval io" where
  "upload_resolveIndex env options feedOwnerKey =
     (case truthy_str (uo_feedIndex options) of
        Some i \<Rightarrow> io_return (parseInt i 0)
      | None \<Rightarrow>
          io_bind (fetchNextFeedIndex env feedOwnerKey
                     (str_or (uo_gateway options) (DEFAULT_GATEWAY_URL env)) None)
            (\<lambda>fetchedIndex.
               if fetchedIndex \<noteq> Null then io_return fetchedIndex
               else io_bind
                      (io_when (\<not> uo_quiet options)
                         (io_emit (SpinnerWarn ''Could not fetch feed index, using default: 0'')))
                      (\<lambda>_. io_return (Num 0))))"

text \<open>
  Lines 649 to 704 (\<^verbatim>\<open>upload.ts\<close>), the body of \<^verbatim>\<open>if (options.feed)\<close>: the
  feed owner key, the index, and the call of \<^verbatim>\<open>updateFeed\<close> with its object
  literal.
\<close>

definition upload_feedUpdate :: "env \<Rightarrow> upload_options \<Rightarrow> string \<Rightarrow> jsval \<Rightarrow> unit io" where
  "upload_feedUpdate env options reference depth =
     io_bind (upload_feedOwnerKey env options) (\<lambda>feedOwnerKey.
       io_bind (upload_resolveIndex env options feedOwnerKey) (\<lambda>feedIndex.
         updateFeed env
           [(''reference'', Str reference),
            (''reserveKey'', Str (uo_key options)),
            (''batchId'', Str (uo_batchId options)),
            (''gateway'', opt_val (uo_gateway options)),
            (''index'', feedIndex),
            (''depth'', depth),
            (''project'', opt_val (uo_project options))]))"

text \<open>
  The action of \<^verbatim>\<open>upload\<close> (\<^verbatim>\<open>createUploadCommand\<close>).  \<open>loadFiles\<close> stands for
  lines 553 to 585, which only touch the local file system; \<open>uploadFiles\<close>
  for the construction of the \<^verbatim>\<open>StampedUploader\<close> and its \<^verbatim>\<open>uploadFiles\<close>, whose
  value is the reference of the result.  A result \<open>Inl e\<close> is the \<^verbatim>\<open>catch\<close>
  branch, which ends in \<^verbatim>\<open>process.exit(1)\<close>.
\<close>

definition upload_action :: "env \<Rightarrow> string \<Rightarrow> upload_options \<Rightarrow> unit io" where
  "upload_action env uploadPath options =
     (if \<not> matches_hex64 (uo_batchId options) then
        io_throw (Error ''Invalid batch ID format (expected 64 hex characters)'')
      else if \<not> matches_hex64 (uo_key options) then
        io_throw (Error ''Invalid key format (expected 64 hex characters)'')
      else
        io_bind (io_lift (loadFiles env uploadPath)) (\<lambda>files.
          io_bind (upload_resolveDepth env options) (\<lambda>depth.
            let cfg = \<lparr>uc_gatewayUrl = str_or (uo_gateway options) (DEFAULT_GATEWAY_URL env),
                       uc_batchId = uo_batchId options,
                       uc_privateKey = uo_key options,
                       uc_depth = depth\<rparr>
            in io_bind (io_call (UploadFiles cfg (uo_indexDocument options) (uo_spa options))
                          (uploadFiles env cfg files))
                 (\<lambda>reference.
                    if uo_feed options then upload_feedUpdate env options reference depth
                    else io_return ()))))"

section \<open>The slug of a project name\<close>

text \<open>
  Modelled from the spec: \<^verbatim>\<open>normalizeProjectSlug\<close> is imported from
  \<^verbatim>\<open>@hostasis/swarm-stamper\<close> and its body is not among the sources.  The
  specification describes it as: lowercase the name, replace every maximal run
  of characters outside \<^verbatim>\<open>[a-z0-9]\<close> with a single hyphen, trim leading and
  trailing hyphens, truncate to 50 characters, and fail with \<^verbatim>\<open>InvalidSlug\<close>
  when the result is empty.
\<close>

definition toLowerCase :: "string \<Rightarrow> string" where
  "toLowerCase s =
     map (\<lambda>c. let n = (of_char c :: nat) in if 65 \<le> n \<and> n \<le> 90 then char_of (n + 32) else c) s"

definition is_slug_alnum :: "char \<Rightarrow> bool" where
  \<comment> \<open>\<^verbatim>\<open>[a-z0-9]\<close>\<close>
  "is_slug_alnum c =
     (let n = (of_char c :: nat) in (48 \<le> n \<and> n \<le> 57) \<or> (97 \<le> n \<and> n \<le> 122))"

function collapse_runs :: "string \<Rightarrow> string" where
  "collapse_runs [] = []"
| "collapse_runs (c # cs) =
     (if is_slug_alnum c then c # collapse_runs cs
      else CHR ''-'' # collapse_runs (dropWhile (\<lambda>x. \<not> is_slug_alnum x) cs))"
  by pat_completeness auto
termination
  by (relation "measure length") (auto simp: length_dropWhile_le less_Suc_eq_le)

definition trim_hyphens :: "string \<Rightarrow> string" where
  "trim_hyphens s =
     rev (dropWhile (\<lambda>c. c = CHR ''-'') (rev (dropWhile (\<lambda>c. c = CHR ''-'') s)))"

definition slug_of :: "string \<Rightarrow> string" where
  "slug_of name = take 50 (trim_hyphens (collapse_runs (toLowerCase name)))"

definition normalizeProjectSlug :: "string \<Rightarrow> error + string" where
  "normalizeProjectSlug name =
     (if slug_of name = [] then Inl (Error ''InvalidSlug'') else Inr (slug_of name))"

section \<open>Observations on a run; a sample environment\<close>

fun rpc_requests :: "event list \<Rightarrow> rpc_request list" where
  "rpc_requests [] = []"
| "rpc_requests (ReadContract r # es) = r # rpc_requests es"
| "rpc_requests (_ # es) = rpc_requests es"

fun http_gets :: "event list \<Rightarrow> string list" where
  "http_gets [] = []"
| "http_gets (HttpGet url _ # es) = url # http_gets es"
| "http_gets (_ # es) = http_gets es"

fun upload_configs :: "event list \<Rightarrow> uploader_config list" where
  "upload_configs [] = []"
| "upload_configs (UploadFiles cfg _ _ # es) = cfg # upload_configs es"
| "upload_configs (_ # es) = upload_configs es"

fun write_requests :: "event list \<Rightarrow> write_request list" where
  "write_requests [] = []"
| "write_requests (WriteFeedUpdate r # es) = r # write_requests es"
| "write_requests (_ # es) = write_requests es"

fun warnings :: "event list \<Rightarrow> string list" where
  "warnings [] = []"
| "warnings (SpinnerWarn m # es) = m # warnings es"
| "warnings (_ # es) = warnings es"

text \<open>
  A sample environment for evaluating the model at concrete inputs.  Its
  cryptographic functions are stand-ins of the right shape, not the real
  primitives: the public key of a 32-byte key \<open>k\<close> is taken to be \<open>04 k k\<close> and
  the hash the first 32 bytes of its zero-padded input.  The RPC endpoint
  answers depth 22 for every batch and nothing else speaks JSON-RPC; the
  gateway's answer to a feed read is the parameter.
\<close>

definition sample_crypto :: crypto where
  "sample_crypto =
     \<lparr>secp256k1_getPublicKey =
        (\<lambda>k compressed. if length k = 32 then Inr (4 # k @ k)
                         else Inl (Error ''invalid private key'')),
      keccak_256 = (\<lambda>bs. take 32 (bs @ replicate 32 0))\<rparr>"

definition sample_slug :: "jsval \<Rightarrow> error + string" where
  "sample_slug v = (case v of Str s \<Rightarrow> normalizeProjectSlug s | _ \<Rightarrow> Inl (Error ''TypeError''))"

definition sample_derive :: "jsval \<Rightarrow> string \<Rightarrow> error + string" where
  "sample_derive k slug =
     (case k of
        Str s \<Rightarrow> Inr ''7777777777777777777777777777777777777777777777777777777777777777''
      | _ \<Rightarrow> Inl (Error ''TypeError''))"

definition sample_env :: "(string \<Rightarrow> error + http_response) \<Rightarrow> env" where
  "sample_env gateway =
     \<lparr>crypto_of = sample_crypto,
      readContract = (\<lambda>req. if rpc_url req = ''https://rpc.gnosis.gateway.fm'' then Inr 22
                             else Inl (Error ''HTTP request failed'')),
      axios_get = gateway,
      loadFiles = (\<lambda>p. Inr [''index.html'']),
      uploadFiles =
        (\<lambda>cfg files. Inr ''aaaaaaaaaaaaaaaaaaaaaaaaaaaaaaaaaaaaaaaaaaaaaaaaaaaaaaaaaaaaaaaa''),
      writeFeedUpdate = (\<lambda>req. Inr ()),
      lib_normalizeProjectSlug = sample_slug,
      lib_deriveProjectKey = sample_derive,
      DEFAULT_GATEWAY_URL = ''https://bzz.sh''\<rparr>"

definition responds :: "nat \<Rightarrow> (string \<times> string) list \<Rightarrow> jsval \<Rightarrow> string \<Rightarrow> error + http_response" where
  \<comment> \<open>a gateway that gives the same response to every read\<close>
  "responds st hs d url = Inr \<lparr>status = st, headers = hs, data = d\<rparr>"

definition sample_key :: string where
  "sample_key = ''1111111111111111111111111111111111111111111111111111111111111111''"

definition sample_batch :: string where
  "sample_batch = ''bbbbbbbbbbbbbbbbbbbbbbbbbbbbbbbbbbbbbbbbbbbbbbbbbbbbbbbbbbbbbbbb''"

definition sample_reference :: string where
  "sample_reference = ''cccccccccccccccccccccccccccccccccccccccccccccccccccccccccccccccc''"

definition sample_feed_options :: feed_options where
  "sample_feed_options =
     \<lparr>fo_reference = sample_reference, fo_key = sample_key, fo_gateway = Some ''https://bzz.sh'',
      fo_index = None, fo_topic = None, fo_project = None, fo_quiet = False,
      fo_batchId = Some sample_batch, fo_depth = None\<rparr>"

definition sample_upload_options :: upload_options where
  "sample_upload_options =
     \<lparr>uo_batchId = sample_batch, uo_key = sample_key, uo_gateway = Some ''https://bzz.sh'',
      uo_indexDocument = Some ''index.html'', uo_spa = False, uo_quiet = False,
      uo_gnosisRpc = Some ''https://rpc.gnosis.gateway.fm'', uo_project = None, uo_feed = True,
      uo_feedIndex = None, uo_depth = None\<rparr>"

section \<open>Notions of the specification\<close>

text \<open>
  The signer of a feed update as the specification describes it: the project
  key derived from the reserve key and the slug of the project name when a
  project name is supplied, the reserve key itself otherwise.  A project name
  that is the empty string counts as not supplied.
\<close>

definition spec_signerKey :: "env \<Rightarrow> string \<Rightarrow> string option \<Rightarrow> error + string" where
  "spec_signerKey env reserveKey project =
     (case truthy_str project of
        None \<Rightarrow> Inr reserveKey
      | Some name \<Rightarrow>
          (case lib_normalizeProjectSlug env (Str name) of
             Inl e \<Rightarrow> Inl e
           | Inr slug \<Rightarrow> lib_deriveProjectKey env (Str reserveKey) slug))"

text \<open>A number given on the command line: a non-empty string of decimal digits.\<close>

definition is_decimal :: "string \<Rightarrow> bool" where
  "is_decimal s = (s \<noteq> [] \<and> list_all (\<lambda>c. 48 \<le> (of_char c :: nat) \<and> (of_char c :: nat) \<le> 57) s)"

text \<open>
  The scalar of a private key written in hex: one byte per pair of digits, the
  first digit of a pair the high one.
\<close>

definition hexval :: "char \<Rightarrow> nat" where
  "hexval c = (case digit_val c of Some d \<Rightarrow> d | None \<Rightarrow> 0)"

fun scalar_bytes :: "string \<Rightarrow> byte list" where
  "scalar_bytes (a # b # r) = of_nat (hexval a * 16 + hexval b) # scalar_bytes r"
| "scalar_bytes _ = []"

section \<open>Properties\<close>

subsection \<open>Hex codec\<close>

lemma round_double_small:
  assumes "\<bar>n\<bar> < 2 ^ 53"
  shows "round_double n = Num n"
proof -
  have "nat \<bar>n\<bar> < 2 ^ 53"
    using assms by (simp add: nat_less_iff)
  then show ?thesis
    by (simp only: round_double_def Let_def if_True)
qed

lemma round_double_at: "round_double 9007199254740992 = Num 9007199254740992"
  by (simp add: round_double_def Let_def double_shift.simps [of 9007199254740992]
      double_shift.simps [of 4503599627370496])

lemma round_double_above: "round_double 9007199254740993 = Num 9007199254740992"
  by (simp add: round_double_def Let_def double_shift.simps [of 9007199254740993]
      double_shift.simps [of 4503599627370496])

lemma char_eq_char_of: "(c = char_of (n::nat)) = (of_char c = n mod 256)"
  by (metis char_of_char of_char_of)

lemma digit_char_table: "map digit_char [0..<36] = ''0123456789abcdefghijklmnopqrstuvwxyz''"
  by (simp add: digit_char_def upt_rec char_eq_char_of eq_commute [of "char_of _"])

lemma digit_char_props:
  assumes "d < 16"
  shows "digit_val (digit_char d) = Some d"
    and "\<not> is_ws (digit_char d)"
    and "digit_char d \<noteq> CHR ''+''" and "digit_char d \<noteq> CHR ''-''"
    and "digit_char d \<noteq> CHR ''x''" and "digit_char d \<noteq> CHR ''X''"
    and "is_lower_hex (digit_char d)"
  using assms
  by (auto simp: digit_char_def digit_val_def is_ws_def is_lower_hex_def Let_def char_of_eq_iff take_bit_eq_mod)

lemma lower_hex_digit_char:
  assumes "is_lower_hex c"
  shows "\<exists>d<16. c = digit_char d"
proof -
  let ?n = "of_char c :: nat"
  from assms have r: "(48 \<le> ?n \<and> ?n \<le> 57) \<or> (97 \<le> ?n \<and> ?n \<le> 102)"
    by (simp add: is_lower_hex_def Let_def)
  define d where "d = (if ?n \<le> 57 then ?n - 48 else ?n - 87)"
  from r have "d < 16" by (auto simp: d_def)
  moreover from r have "digit_char d = char_of ?n"
    by (auto simp: d_def digit_char_def)
  ultimately show ?thesis by auto
qed

lemma byte_hex_pair:
  assumes "n < 256"
  shows "padStart 2 (CHR ''0'') (toString16 n) = [digit_char (n div 16), digit_char (n mod 16)]"
proof (cases "n < 16")
  case True
  then show ?thesis
    by (simp add: toString16.simps [of n] padStart_def digit_char_def [of 0] char_eq_char_of)
next
  case False
  with assms have "n div 16 < 16" by simp
  with False show ?thesis
    by (simp add: toString16.simps [of n] toString16.simps [of "n div 16"] padStart_def)
qed

lemma parseInt_hex_pair:
  assumes "a < 16" "b < 16"
  shows "parseInt [digit_char a, digit_char b] 16 = Num (int (a * 16 + b))"
proof -
  have "round_double (int (a * 16 + b)) = Num (int (a * 16 + b))"
    using assms by (intro round_double_small) simp
  then show ?thesis
    using digit_char_props [OF assms(1)] digit_char_props [OF assms(2)]
    by (simp add: parseInt_def Let_def is_radix_digit_def digits_value_def assms)
qed

lemma hex_pairs_map:
  "map (\<lambda>i. f (take 2 (drop (i * 2) (a # b # r)))) [0 ..< Suc n] =
   f [a, b] # map (\<lambda>i. f (take 2 (drop (i * 2) r))) [0 ..< n]"
proof -
  have "[0 ..< Suc n] = 0 # map Suc [0 ..< n]"
    by (simp add: upt_conv_Cons map_Suc_upt)
  then show ?thesis by (simp add: o_def)
qed

lemma strip0x_bytesToHex: "strip0x (bytesToHex bs) = bytesToHex bs"
proof (cases bs)
  case Nil
  then show ?thesis by (simp add: strip0x_def bytesToHex_def)
next
  case (Cons b r)
  have "unat b < 256" using unsigned_less [of b] by simp
  then have "unat b mod 16 < 16" by simp
  from digit_char_props(5) [OF this] Cons \<open>unat b < 256\<close> show ?thesis
    by (simp add: strip0x_def bytesToHex_def byte_hex_pair)
qed

lemma bytes_roundtrip_body:
  "map (\<lambda>i. to_uint8 (parseInt (take 2 (drop (i * 2) (bytesToHex bs))) 16))
       [0 ..< length bs] = bs"
proof (induction bs)
  case Nil
  then show ?case by simp
next
  case (Cons b bs)
  have lt: "unat b < 256" using unsigned_less [of b] by simp
  then have d: "unat b div 16 < 16" "unat b mod 16 < 16" by simp_all
  have hx: "bytesToHex (b # bs) =
      digit_char (unat b div 16) # digit_char (unat b mod 16) # bytesToHex bs"
    by (simp add: bytesToHex_def byte_hex_pair lt)
  have "to_uint8 (parseInt [digit_char (unat b div 16), digit_char (unat b mod 16)] 16) = b"
    by (simp add: parseInt_hex_pair [OF d])
  with Cons.IH show ?case
    unfolding hx length_Cons
    by (simp only: hex_pairs_map [where f = "\<lambda>x. to_uint8 (parseInt x 16)"])
qed

lemma length_bytesToHex: "length (bytesToHex bs) = 2 * length bs"
proof (induction bs)
  case Nil
  then show ?case by (simp add: bytesToHex_def)
next
  case (Cons b bs)
  have "unat b < 256" using unsigned_less [of b] by simp
  with Cons show ?case by (simp add: bytesToHex_def byte_hex_pair)
qed

lemma lower_hex_bytesToHex: "list_all is_lower_hex (bytesToHex bs)"
proof (induction bs)
  case Nil
  then show ?case by (simp add: bytesToHex_def)
next
  case (Cons b bs)
  have lt: "unat b < 256" using unsigned_less [of b] by simp
  then have d: "unat b div 16 < 16" "unat b mod 16 < 16" by simp_all
  from Cons digit_char_props(7) [OF d(1)] digit_char_props(7) [OF d(2)] show ?case
    by (simp add: bytesToHex_def byte_hex_pair lt)
qed

lemma hexToBytes_bytesToHex: "hexToBytes (bytesToHex bs) = bs"
  by (simp add: hexToBytes_def Let_def strip0x_bytesToHex length_bytesToHex bytes_roundtrip_body)

lemma strip0x_lower_hex:
  assumes "list_all is_lower_hex s"
  shows "strip0x s = s"
proof -
  have "\<not> is_lower_hex (CHR ''x'')" by (simp add: is_lower_hex_def)
  with assms have "take 2 s \<noteq> ''0x''"
    by (cases s; cases "tl s") auto
  then show ?thesis by (simp add: strip0x_def)
qed

lemma hex_roundtrip_body:
  "length s = 2 * n \<Longrightarrow> list_all is_lower_hex s \<Longrightarrow>
   bytesToHex (map (\<lambda>i. to_uint8 (parseInt (take 2 (drop (i * 2) s)) 16)) [0 ..< n]) = s"
proof (induction n arbitrary: s)
  case 0
  then show ?case by (simp add: bytesToHex_def)
next
  case (Suc n)
  then obtain a b r where s: "s = a # b # r"
    by (cases s; cases "tl s") auto
  with Suc.prems have r: "length r = 2 * n" "list_all is_lower_hex r"
    and ab: "is_lower_hex a" "is_lower_hex b" by simp_all
  from ab obtain x y where x: "x < 16" "a = digit_char x" and y: "y < 16" "b = digit_char y"
    using lower_hex_digit_char by blast
  define v where "v = x * 16 + y"
  define w where "w = to_uint8 (parseInt [a, b] 16)"
  have v: "v < 256" using x y by (simp add: v_def)
  have "w = (of_nat v :: byte)"
    using x y by (simp add: w_def v_def parseInt_hex_pair)
  then have u: "unat w = v"
    using v by (simp add: unat_of_nat)
  have "v div 16 = x" "v mod 16 = y"
    using x y by (simp_all add: v_def)
  then have q: "padStart 2 (CHR ''0'') (toString16 (unat w)) = [a, b]"
    using x y v by (simp add: u byte_hex_pair)
  have "bytesToHex (w # bs) = a # b # bytesToHex bs" for bs
    by (simp add: bytesToHex_def q)
  with Suc.IH [OF r] show ?case
    unfolding s w_def
    by (simp only: hex_pairs_map [where f = "\<lambda>x. to_uint8 (parseInt x 16)"])
qed

lemma bytesToHex_hexToBytes:
  assumes "even (length s)" "list_all is_lower_hex s"
  shows "bytesToHex (hexToBytes s) = s"
proof -
  from assms(1) obtain n where "length s = 2 * n" by (auto elim: evenE)
  then show ?thesis
    using hex_roundtrip_body [of s n] assms(2)
    by (simp add: hexToBytes_def Let_def strip0x_lower_hex [OF assms(2)])
qed


text \<open>
  Claim C10.  Decoding the hex encoding of any byte array gives the array back; the
  encoding has exactly two characters per byte, all of them in \<^verbatim>\<open>[0-9a-f]\<close>;
  and every even-length string over \<^verbatim>\<open>[0-9a-f]\<close> (such a string cannot begin
  with \<^verbatim>\<open>0x\<close>) is the encoding of its decoding.
\<close>

theorem hex_codec_roundtrip:
  "hexToBytes (bytesToHex b) = b
   \<and> length (bytesToHex b) = 2 * length b
   \<and> list_all is_lower_hex (bytesToHex b)
   \<and> (even (length s) \<and> list_all is_lower_hex s \<longrightarrow> bytesToHex (hexToBytes s) = s)"
  by (simp add: hexToBytes_bytesToHex length_bytesToHex lower_hex_bytesToHex
      bytesToHex_hexToBytes)

theorem hex_codec_roundtrip_witness:
  "even (length ''00ff1a'') \<and> list_all is_lower_hex ''00ff1a''
   \<and> bytesToHex (hexToBytes ''00ff1a'') = ''00ff1a''"
proof -
  have h: "even (length ''00ff1a'') \<and> list_all is_lower_hex ''00ff1a''"
    by (simp add: is_lower_hex_def)
  from hex_codec_roundtrip [of "[]" "''00ff1a''"] h
  have "bytesToHex (hexToBytes ''00ff1a'') = ''00ff1a''" by blast
  with h show ?thesis by blast
qed

subsection \<open>Address of a private key\<close>

lemma length_hexToBytes: "length (hexToBytes s) = length (strip0x s) div 2"
  by (simp add: hexToBytes_def Let_def)

lemma hex_char_props:
  assumes "is_hex_char c"
  shows "\<not> is_ws c" "c \<noteq> CHR ''+''" "c \<noteq> CHR ''-''" "c \<noteq> CHR ''x''" "c \<noteq> CHR ''X''"
    "is_radix_digit 16 c"
  using assms
  by (auto simp: is_hex_char_def is_ws_def is_radix_digit_def digit_val_def Let_def)

lemma parseInt_hex:
  assumes "s \<noteq> []" "list_all is_hex_char s"
  shows "parseInt s 16 = round_double (int (digits_value 16 s))"
proof -
  from assms obtain c cs where s: "s = c # cs" and c: "is_hex_char c"
    and cs: "list_all is_hex_char cs"
    by (cases s) auto
  have ws: "dropWhile is_ws s = s"
    using hex_char_props(1) [OF c] by (simp add: s)
  have neg: "(case s of c # _ \<Rightarrow> c = CHR ''-'' | [] \<Rightarrow> False) = False"
    using hex_char_props(3) [OF c] by (simp add: s)
  have s1: "(case s of c # r \<Rightarrow> if c = CHR ''+'' \<or> c = CHR ''-'' then r else s | [] \<Rightarrow> []) = s"
    using hex_char_props(2,3) [OF c] by (simp add: s)
  have pre: "take 2 s \<noteq> ''0x''" "take 2 s \<noteq> ''0X''"
    using cs hex_char_props(4,5) by (cases cs; auto simp: s)+
  have "\<forall>x\<in>set s. is_radix_digit 16 x"
    using assms(2) hex_char_props(6) by (simp add: list_all_iff)
  then have tw: "takeWhile (is_radix_digit 16) s = s"
    by simp
  show ?thesis
    by (simp add: parseInt_def Let_def ws neg s1 pre tw assms(1))
qed

lemma hexval_lt16: "is_hex_char c \<Longrightarrow> hexval c < 16"
  by (auto simp: is_hex_char_def hexval_def digit_val_def Let_def)

lemma digits_value_pair:
  assumes "is_hex_char a" "is_hex_char b"
  shows "digits_value 16 [a, b] = hexval a * 16 + hexval b"
  using assms
  by (auto simp: digits_value_def hexval_def is_hex_char_def digit_val_def Let_def)

lemma hex_pair_byte:
  assumes "is_hex_char a" "is_hex_char b"
  shows "to_uint8 (parseInt [a, b] 16) = of_nat (hexval a * 16 + hexval b)"
proof -
  have "hexval a * 16 + hexval b < 256"
    using hexval_lt16 [OF assms(1)] hexval_lt16 [OF assms(2)] by simp
  then have "round_double (int (hexval a * 16 + hexval b)) = Num (int (hexval a * 16 + hexval b))"
    by (intro round_double_small) simp
  then show ?thesis
    using assms by (simp add: parseInt_hex digits_value_pair)
qed

lemma hex_decode_body:
  "length s = 2 * n \<Longrightarrow> list_all is_hex_char s \<Longrightarrow>
   map (\<lambda>i. to_uint8 (parseInt (take 2 (drop (i * 2) s)) 16)) [0 ..< n] = scalar_bytes s"
proof (induction n arbitrary: s)
  case 0
  then show ?case by simp
next
  case (Suc n)
  then obtain a b r where s: "s = a # b # r"
    by (cases s; cases "tl s") auto
  with Suc.prems have r: "length r = 2 * n" "list_all is_hex_char r"
    and ab: "is_hex_char a" "is_hex_char b" by simp_all
  from Suc.IH [OF r] hex_pair_byte [OF ab] show ?case
    unfolding s
    by (simp only: hex_pairs_map [where f = "\<lambda>x. to_uint8 (parseInt x 16)"] scalar_bytes.simps)
qed

lemma length_scalar_bytes: "length (scalar_bytes s) = length s div 2"
  by (induction s rule: scalar_bytes.induct) simp_all

lemma hexToBytes_key:
  assumes "hex64 h" "key = h \<or> key = ''0x'' @ h"
  shows "hexToBytes key = scalar_bytes h"
proof -
  from assms(1) have h: "length h = 2 * 32" "list_all is_hex_char h"
    by (simp_all add: hex64_def)
  have "\<not> is_hex_char (CHR ''x'')" by (simp add: is_hex_char_def)
  with h(2) have "take 2 h \<noteq> ''0x''"
    by (cases h; cases "tl h") auto
  with assms(2) have "strip0x key = h"
    by (auto simp: strip0x_def)
  then show ?thesis
    using hex_decode_body [OF h] h(1) by (simp add: hexToBytes_def Let_def)
qed

text \<open>
  Claim C8.  A private key is written as 64 hex digits \<open>h\<close>, with or without the
  prefix \<^verbatim>\<open>0x\<close>; its scalar is the 32 bytes \<open>scalar_bytes h\<close>.  The address is a
  function of the key and the two primitives.  When the curve gives the
  uncompressed 65-byte public key \<open>04 xy\<close> for that scalar and the hash of the 64
  bytes \<open>xy\<close> has 32 bytes, the address has exactly 20 bytes and is the low-order
  end of that hash: the hash is its first 12 bytes followed by the address.
\<close>

theorem address_of_private_key:
  assumes "hex64 h" and "key = h \<or> key = ''0x'' @ h"
    and "secp256k1_getPublicKey c (scalar_bytes h) False = Inr (4 # xy)"
    and "length xy = 64"
    and "length (keccak_256 c xy) = 32"
  shows "length (scalar_bytes h) = 32
         \<and> (\<exists>addr. getAddressFromPrivateKey c key = Inr addr
               \<and> length addr = 20
               \<and> keccak_256 c xy = take 12 (keccak_256 c xy) @ addr)"
proof -
  have "length (scalar_bytes h) = 32"
    using assms(1) by (simp add: length_scalar_bytes hex64_def)
  moreover have "hexToBytes key = scalar_bytes h"
    using assms(1,2) by (rule hexToBytes_key)
  ultimately show ?thesis
    using assms(3-5) by (simp add: getAddressFromPrivateKey_def slice_from_def)
qed

lemma sample_hex64: "hex64 sample_key"
  by (simp add: hex64_def is_hex_char_def sample_key_def)

theorem address_of_private_key_witness:
  "hex64 sample_key
   \<and> secp256k1_getPublicKey sample_crypto (scalar_bytes sample_key) False
       = Inr (4 # scalar_bytes sample_key @ scalar_bytes sample_key)
   \<and> length (scalar_bytes sample_key @ scalar_bytes sample_key) = 64
   \<and> length (keccak_256 sample_crypto (scalar_bytes sample_key @ scalar_bytes sample_key)) = 32
   \<and> (\<exists>addr. getAddressFromPrivateKey sample_crypto (''0x'' @ sample_key) = Inr addr
          \<and> length addr = 20)
   \<and> (\<exists>addr. getAddressFromPrivateKey sample_crypto sample_key = Inr addr \<and> length addr = 20)"
proof -
  have l: "length (scalar_bytes sample_key) = 32"
    using sample_hex64 by (simp add: length_scalar_bytes hex64_def)
  have h1: "secp256k1_getPublicKey sample_crypto (scalar_bytes sample_key) False
     = Inr (4 # scalar_bytes sample_key @ scalar_bytes sample_key)"
    by (simp add: sample_crypto_def l)
  have h2: "length (scalar_bytes sample_key @ scalar_bytes sample_key) = 64"
    by (simp add: l)
  have h3: "length (keccak_256 sample_crypto (scalar_bytes sample_key @ scalar_bytes sample_key))
              = 32"
    by (simp add: sample_crypto_def l)
  have p: "''0x'' @ sample_key = sample_key \<or> ''0x'' @ sample_key = ''0x'' @ sample_key"
    and u: "sample_key = sample_key \<or> sample_key = ''0x'' @ sample_key"
    by simp_all
  from address_of_private_key [OF sample_hex64 p h1 h2 h3]
    address_of_private_key [OF sample_hex64 u h1 h2 h3] h1 h2 h3 sample_hex64
  show ?thesis by blast
qed


subsection \<open>Depth and index resolution\<close>

lemma io_simps:
  "io_bind (es, Inl e) f = (es, Inl e)"
  "io_bind (es, Inr x) f = (es @ fst (f x), snd (f x))"
  "io_bind (io_return x) f = f x"
  "io_catch (es, Inl e) h = (es @ fst (h e), snd (h e))"
  "io_catch (es, Inr x) h = (es, Inr x)"
  by (simp_all add: io_bind_def io_catch_def io_return_def split: prod.splits)

lemma fetchBatchDepth_cases:
  "fetchBatchDepth env b r =
     (let url = (case r of None \<Rightarrow> ''https://rpc.gnosis.gateway.fm'' | Some u \<Rightarrow> u);
          req = batchDepth_request url (if take 2 b = ''0x'' then b else ''0x'' @ b)
      in ([ReadContract req], Inr (case readContract env req of Inl e \<Rightarrow> Null | Inr d \<Rightarrow> Num d)))"
  by (simp add: fetchBatchDepth_def fetchBatchDepth_try_def Let_def io_call_def io_simps io_return_def
      split: sum.splits)

lemma fetchNextFeedIndex_cases:
  "fetchNextFeedIndex env k g t =
     (let topic = (case t of None \<Rightarrow> replicate 32 0 | Some x \<Rightarrow> x)
      in case getAddressFromPrivateKey (crypto_of env) k of
           Inl e \<Rightarrow> ([], Inr Null)
         | Inr owner \<Rightarrow>
             ([HttpGet (feedUrl g owner topic) 5000],
              Inr (case axios_get env (feedUrl g owner topic) of
                     Inl e \<Rightarrow> Null
                   | Inr r \<Rightarrow> if validateStatus (status r) then indexOfResponse r else Null)))"
  by (simp add: fetchNextFeedIndex_def fetchNextFeedIndex_try_def Let_def io_call_def io_lift_def
      io_simps io_return_def io_throw_def split: sum.splits)

lemma fetch_never_raises:
  "(\<exists>v. snd (fetchBatchDepth env b r) = Inr v \<and> (v = Null \<or> (\<exists>n. v = Num n)))
   \<and> (\<exists>v. snd (fetchNextFeedIndex env k g t) = Inr v)"
  by (simp add: fetchBatchDepth_cases fetchNextFeedIndex_cases Let_def split: sum.splits)

lemma replicate_numeral: "replicate (numeral k) x = x # replicate (pred_numeral k) x"
  by (simp add: numeral_eq_Suc)

lemma sample_key_bytes: "hexToBytes sample_key = replicate 32 17"
proof -
  have "bytesToHex (replicate 32 17) = sample_key"
    by (simp add: bytesToHex_def sample_key_def replicate_numeral byte_hex_pair digit_char_def
        char_eq_char_of eq_commute [of "char_of _"])
  with hexToBytes_bytesToHex [of "replicate 32 17"] show ?thesis by simp
qed

lemma sample_owner:
  "getAddressFromPrivateKey sample_crypto sample_key = Inr (replicate 20 17)"
  by (simp add: getAddressFromPrivateKey_def sample_crypto_def slice_from_def sample_key_bytes)

lemma js_plus_Num: "js_plus (Num a) (Num b) = round_double (a + b)"
  by (simp add: js_plus_def js_toPrimitive_def)

lemma parseInt_hex_small:
  assumes "s \<noteq> []" "list_all is_hex_char s" "digits_value 16 s < 2 ^ 53"
  shows "parseInt s 16 = Num (int (digits_value 16 s))"
proof -
  have "round_double (int (digits_value 16 s)) = Num (int (digits_value 16 s))"
    using assms(3) by (intro round_double_small) simp
  with parseInt_hex [OF assms(1,2)] show ?thesis by simp
qed

lemma js_plus_one:
  assumes "\<bar>n + 1\<bar> < 2 ^ 53"
  shows "js_plus (Num n) (Num 1) = Num (n + 1)"
  using round_double_small [OF assms] by (simp add: js_plus_Num)

lemma parseInt_hex_plus_one:
  assumes "s \<noteq> []" "list_all is_hex_char s" "digits_value 16 s + 1 < 2 ^ 53"
  shows "js_plus (parseInt s 16) (Num 1) = Num (int (digits_value 16 s) + 1)"
proof -
  from assms(3) have "digits_value 16 s < 2 ^ 53" by simp
  from parseInt_hex_small [OF assms(1,2) this] have "parseInt s 16 = Num (int (digits_value 16 s))" .
  moreover have "\<bar>int (digits_value 16 s) + 1\<bar> < 2 ^ 53"
    using assms(3) by (simp add: zless_nat_eq_int_zless [symmetric] nat_add_distrib)
  ultimately show ?thesis by (simp add: js_plus_one)
qed

text \<open>
  Claim C3, as amended.  Let the key have an address and the gateway answer the
  feed read with response \<open>r\<close>.  Status 404 gives 0; any status other than 200
  and 404 gives \<^verbatim>\<open>null\<close>.  For status 200, a field is read from its header when
  that header is a non-empty string and from the body otherwise, and is absent
  when the body has no such property.  A next-index field is returned before any
  current-index field is looked at: base-16 decoded when a hex string, as it is
  when a number, and \<^verbatim>\<open>null\<close> when the body holds \<^verbatim>\<open>null\<close>.  With no next-index
  field, a current-index field gives its value plus one; with neither, the
  result is \<^verbatim>\<open>null\<close>.  Decoded values and sums are the exact ones below \<open>2^53\<close>.
\<close>

theorem next_index_of_response:
  fixes env :: env and r :: http_response
  defines "hn \<equiv> map_of (headers r) ''swarm-feed-index-next''"
    and "bn \<equiv> opt_prop (data r) ''feedIndexNext''"
    and "hc \<equiv> map_of (headers r) ''swarm-feed-index''"
    and "bc \<equiv> opt_prop (data r) ''feedIndex''"
    and "hex \<equiv> \<lambda>s. s \<noteq> [] \<and> list_all is_hex_char s"
  assumes owner: "getAddressFromPrivateKey (crypto_of env) key = Inr owner"
    and resp: "axios_get env (feedUrl gateway owner topic) = Inr r"
  shows
    "(status r = 404 \<longrightarrow>
        snd (fetchNextFeedIndex env key gateway (Some topic)) = Inr (Num 0))
     \<and> (status r \<noteq> 200 \<and> status r \<noteq> 404 \<longrightarrow>
        snd (fetchNextFeedIndex env key gateway (Some topic)) = Inr Null)
     \<and> (status r = 200 \<longrightarrow>
        (\<forall>s. hn = Some s \<and> hex s \<and> digits_value 16 s < 2 ^ 53 \<longrightarrow>
           snd (fetchNextFeedIndex env key gateway (Some topic))
             = Inr (Num (int (digits_value 16 s))))
        \<and> (hn = None \<or> hn = Some [] \<longrightarrow>
             (\<forall>s. bn = Str s \<and> hex s \<and> digits_value 16 s < 2 ^ 53 \<longrightarrow>
                snd (fetchNextFeedIndex env key gateway (Some topic))
                  = Inr (Num (int (digits_value 16 s))))
             \<and> (\<forall>n. bn = Num n \<longrightarrow>
                snd (fetchNextFeedIndex env key gateway (Some topic)) = Inr (Num n))
             \<and> (bn = Null \<longrightarrow>
                snd (fetchNextFeedIndex env key gateway (Some topic)) = Inr Null)
             \<and> (bn = Undefined \<longrightarrow>
                  (\<forall>s. hc = Some s \<and> hex s \<and> digits_value 16 s + 1 < 2 ^ 53 \<longrightarrow>
                     snd (fetchNextFeedIndex env key gateway (Some topic))
                       = Inr (Num (int (digits_value 16 s) + 1)))
                  \<and> (hc = None \<or> hc = Some [] \<longrightarrow>
                       (\<forall>s. bc = Str s \<and> hex s \<and> digits_value 16 s + 1 < 2 ^ 53 \<longrightarrow>
                          snd (fetchNextFeedIndex env key gateway (Some topic))
                            = Inr (Num (int (digits_value 16 s) + 1)))
                       \<and> (\<forall>n. bc = Num n \<and> \<bar>n + 1\<bar> < 2 ^ 53 \<longrightarrow>
                          snd (fetchNextFeedIndex env key gateway (Some topic))
                            = Inr (Num (n + 1)))
                       \<and> (bc = Undefined \<longrightarrow>
                          snd (fetchNextFeedIndex env key gateway (Some topic))
                            = Inr Null)))))"
proof -
  have R: "snd (fetchNextFeedIndex env key gateway (Some topic))
             = Inr (if validateStatus (status r) then indexOfResponse r else Null)"
    by (simp add: fetchNextFeedIndex_cases owner resp)
  have hdr: "\<And>k. map_of (headers r) k = None \<or> map_of (headers r) k = Some [] \<Longrightarrow>
               \<not> truthy (header r k)"
    by (auto simp: header_def opt_val_def)
  have hdrS: "\<And>k s. map_of (headers r) k = Some s \<Longrightarrow> s \<noteq> [] \<Longrightarrow> header r k = Str s"
    by (simp add: header_def opt_val_def)
  show ?thesis
    unfolding R hn_def bn_def hc_def bc_def hex_def
    by (auto simp: validateStatus_def indexOfResponse_def Let_def js_or_def hdr hdrS
        parseInt_hex_small parseInt_hex_plus_one js_plus_one)
qed

theorem next_index_of_response_witness:
  "getAddressFromPrivateKey
      (crypto_of (sample_env (responds 200 [(''swarm-feed-index'', ''0000000000000004'')]
                                Undefined)))
      sample_key
     = Inr (replicate 20 17)
   \<and> snd (fetchNextFeedIndex
            (sample_env (responds 200 [(''swarm-feed-index'', ''0000000000000004'')] Undefined))
            sample_key ''https://bzz.sh'' (Some (replicate 32 0))) = Inr (Num 5)
   \<and> snd (fetchNextFeedIndex (sample_env (responds 404 [] Undefined))
            sample_key ''https://bzz.sh'' (Some (replicate 32 0))) = Inr (Num 0)"
proof -
  let ?o = "replicate 20 17 :: byte list"
  let ?r = "\<lparr>status = 200, headers = [(''swarm-feed-index'', ''0000000000000004'')],
             data = Undefined\<rparr>"
  let ?e = "sample_env (responds 200 [(''swarm-feed-index'', ''0000000000000004'')] Undefined)"
  let ?r' = "\<lparr>status = 404, headers = [], data = Undefined\<rparr>"
  let ?e' = "sample_env (responds 404 [] Undefined)"
  have o: "getAddressFromPrivateKey (crypto_of ?e) sample_key = Inr ?o"
    and o': "getAddressFromPrivateKey (crypto_of ?e') sample_key = Inr ?o"
    by (simp_all add: sample_env_def sample_owner)
  have g: "axios_get ?e (feedUrl ''https://bzz.sh'' ?o (replicate 32 0)) = Inr ?r"
    and g': "axios_get ?e' (feedUrl ''https://bzz.sh'' ?o (replicate 32 0)) = Inr ?r'"
    by (simp_all add: sample_env_def responds_def)
  have h: "''0000000000000004'' \<noteq> [] \<and> list_all is_hex_char ''0000000000000004''"
    by (simp add: is_hex_char_def)
  have v: "digits_value 16 ''0000000000000004'' = 4"
    by (simp add: digits_value_def digit_val_def)
  from next_index_of_response [OF o g] h v
  have "snd (fetchNextFeedIndex ?e sample_key ''https://bzz.sh'' (Some (replicate 32 0)))
          = Inr (Num 5)"
    by (simp add: opt_prop_def)
  moreover from next_index_of_response [OF o' g']
  have "snd (fetchNextFeedIndex ?e' sample_key ''https://bzz.sh'' (Some (replicate 32 0)))
          = Inr (Num 0)"
    by simp
  ultimately show ?thesis using o by blast
qed

text \<open>
  The claim as stated, for every gateway response, fails in five ways.  A
  response with status 203 that carries the next-index header is answered with
  \<^verbatim>\<open>null\<close>, not with 5: only 200 and 404 pass \<^verbatim>\<open>validateStatus\<close>.  A next-index
  header that is present but empty does not take priority: the current index 4
  is read and 5 returned.  The next index \<^verbatim>\<open>20000000000001\<close>, which is
  \<open>2^53 + 1\<close>, is returned as \<open>2^53\<close>.  The current index \<^verbatim>\<open>20000000000000\<close>, which
  is \<open>2^53\<close>, gives \<open>2^53\<close> again, not that value plus one.  And a body with
  \<^verbatim>\<open>feedIndexNext: null\<close> and the current index 4 gives \<^verbatim>\<open>null\<close>, not 5.
\<close>

theorem next_index_claim_counterexample:
  "snd (fetchNextFeedIndex
          (sample_env (responds 203 [(''swarm-feed-index-next'', ''5'')] Undefined))
          sample_key ''https://bzz.sh'' None) = Inr Null
   \<and> snd (fetchNextFeedIndex
          (sample_env (responds 200 [(''swarm-feed-index-next'', []),
                                     (''swarm-feed-index'', ''4'')] Undefined))
          sample_key ''https://bzz.sh'' None) = Inr (Num 5)
   \<and> digits_value 16 ''20000000000001'' = 9007199254740993
   \<and> snd (fetchNextFeedIndex
          (sample_env (responds 200 [(''swarm-feed-index-next'', ''20000000000001'')] Undefined))
          sample_key ''https://bzz.sh'' None) = Inr (Num 9007199254740992)
   \<and> digits_value 16 ''20000000000000'' = 9007199254740992
   \<and> snd (fetchNextFeedIndex
          (sample_env (responds 200 [(''swarm-feed-index'', ''20000000000000'')] Undefined))
          sample_key ''https://bzz.sh'' None) = Inr (Num 9007199254740992)
   \<and> snd (fetchNextFeedIndex
          (sample_env (responds 200 [] (Obj [(''feedIndexNext'', Null), (''feedIndex'', Num 4)])))
          sample_key ''https://bzz.sh'' None) = Inr Null"
proof -
  have h: "list_all is_hex_char ''20000000000001''" "list_all is_hex_char ''20000000000000''"
    "list_all is_hex_char ''4''" "list_all is_hex_char ''5''"
    by (simp_all add: is_hex_char_def)
  have v: "digits_value 16 ''20000000000001'' = 9007199254740993"
    "digits_value 16 ''20000000000000'' = 9007199254740992"
    "digits_value 16 ''4'' = 4"
    by (simp_all add: digits_value_def digit_val_def)
  have p: "parseInt ''20000000000001'' 16 = Num 9007199254740992"
    "js_plus (parseInt ''20000000000000'' 16) (Num 1) = Num 9007199254740992"
    "js_plus (parseInt ''4'' 16) (Num 1) = Num 5"
    using parseInt_hex [of "''20000000000001''"] parseInt_hex [of "''20000000000000''"]
      parseInt_hex [of "''4''"]
    by (simp_all add: is_hex_char_def v round_double_above round_double_at js_plus_Num
        round_double_small)
  show ?thesis
    by (simp add: fetchNextFeedIndex_cases sample_env_def sample_owner responds_def
        validateStatus_def indexOfResponse_def Let_def js_or_def header_def opt_val_def
        opt_prop_def get_prop_def p v)
qed

text \<open>
  Claim C4.  Neither function ever throws: every exception of the body is caught
  and turned into \<^verbatim>\<open>null\<close>.  \<^verbatim>\<open>fetchBatchDepth\<close> yields a number or \<^verbatim>\<open>null\<close>.
  \<^verbatim>\<open>fetchNextFeedIndex\<close> does not always: for a 200 response whose body is
  \<^verbatim>\<open>{"feedIndexNext": true}\<close> it returns the boolean \<^verbatim>\<open>true\<close>, which is neither
  a number nor \<^verbatim>\<open>null\<close>.
\<close>

theorem fetch_results:
  "(\<exists>v. snd (fetchBatchDepth env b r) = Inr v \<and> (v = Null \<or> (\<exists>n. v = Num n)))
   \<and> (\<exists>v. snd (fetchNextFeedIndex env k g t) = Inr v)
   \<and> snd (fetchNextFeedIndex
            (sample_env (responds 200 [] (Obj [(''feedIndexNext'', Bool True)])))
            sample_key ''https://bzz.sh'' None) = Inr (Bool True)"
proof -
  have "snd (fetchNextFeedIndex
            (sample_env (responds 200 [] (Obj [(''feedIndexNext'', Bool True)])))
            sample_key ''https://bzz.sh'' None) = Inr (Bool True)"
    by (simp add: fetchNextFeedIndex_cases sample_env_def sample_owner responds_def
      validateStatus_def indexOfResponse_def Let_def js_or_def header_def opt_val_def
      opt_prop_def get_prop_def)
  with fetch_never_raises [of env b r k g t] show ?thesis by blast
qed


subsection \<open>The two commands\<close>

lemma rpc_requests_append: "rpc_requests (a @ b) = rpc_requests a @ rpc_requests b"
  by (induction a rule: rpc_requests.induct) simp_all

lemma http_gets_append: "http_gets (a @ b) = http_gets a @ http_gets b"
  by (induction a rule: http_gets.induct) simp_all

lemma upload_configs_append: "upload_configs (a @ b) = upload_configs a @ upload_configs b"
  by (induction a rule: upload_configs.induct) simp_all

lemma write_requests_append: "write_requests (a @ b) = write_requests a @ write_requests b"
  by (induction a rule: write_requests.induct) simp_all

lemma warnings_append: "warnings (a @ b) = warnings a @ warnings b"
  by (induction a rule: warnings.induct) simp_all

lemmas obs_append = rpc_requests_append http_gets_append upload_configs_append
  write_requests_append warnings_append

lemma with_fallback:
  "io_bind (es, Inr v)
     (\<lambda>x. if x \<noteq> Null then io_return x
          else io_bind (io_when q (io_emit w)) (\<lambda>_. io_return d))
   = (es @ (if v = Null \<and> q then [w] else []), Inr (if v = Null then d else v))"
  by (simp add: io_bind_def io_return_def io_when_def io_emit_def)

lemma upload_resolveDepth_eq:
  "upload_resolveDepth env opts =
     (case truthy_str (uo_depth opts) of
        Some d \<Rightarrow> ([], Inr (parseInt d 0))
      | None \<Rightarrow>
         (fst (fetchBatchDepth env (uo_batchId opts) (uo_gnosisRpc opts))
            @ (if snd (fetchBatchDepth env (uo_batchId opts) (uo_gnosisRpc opts)) = Inr Null
                  \<and> \<not> uo_quiet opts
               then [SpinnerWarn ''Could not fetch batch depth, using default: 20''] else []),
          if snd (fetchBatchDepth env (uo_batchId opts) (uo_gnosisRpc opts)) = Inr Null
          then Inr (Num 20)
          else snd (fetchBatchDepth env (uo_batchId opts) (uo_gnosisRpc opts))))"
  by (simp add: upload_resolveDepth_def fetchBatchDepth_cases Let_def with_fallback io_return_def
      split: option.splits sum.splits)

lemma feed_resolveDepth_eq:
  "feed_resolveDepth env opts b =
     (case truthy_str (fo_depth opts) of
        Some d \<Rightarrow> ([], Inr (parseInt d 0))
      | None \<Rightarrow>
         (fst (fetchBatchDepth env b (Some (str_or (fo_gateway opts) (DEFAULT_GATEWAY_URL env))))
            @ (if snd (fetchBatchDepth env b
                        (Some (str_or (fo_gateway opts) (DEFAULT_GATEWAY_URL env)))) = Inr Null
                  \<and> \<not> fo_quiet opts
               then [SpinnerWarn ''Could not fetch batch depth, using default: 20''] else []),
          if snd (fetchBatchDepth env b
                   (Some (str_or (fo_gateway opts) (DEFAULT_GATEWAY_URL env)))) = Inr Null
          then Inr (Num 20)
          else snd (fetchBatchDepth env b
                   (Some (str_or (fo_gateway opts) (DEFAULT_GATEWAY_URL env))))))"
  by (simp add: feed_resolveDepth_def fetchBatchDepth_cases Let_def with_fallback io_return_def
      split: option.splits sum.splits)

lemma fetchNextFeedIndex_total:
  "\<exists>v. fetchNextFeedIndex env k g t = (fst (fetchNextFeedIndex env k g t), Inr v)"
  by (simp add: fetchNextFeedIndex_cases Let_def split: sum.splits)

lemma resolveIndex_fallback:
  assumes "m = fetchNextFeedIndex env k g t"
  shows "io_bind m
     (\<lambda>x. if x \<noteq> Null then io_return x
          else io_bind (io_when q (io_emit w)) (\<lambda>_. io_return d))
   = (fst m @ (if snd m = Inr Null \<and> q then [w] else []),
      if snd m = Inr Null then Inr d else snd m)"
proof -
  from fetchNextFeedIndex_total [of env k g t] assms obtain v where m: "m = (fst m, Inr v)"
    by auto
  show ?thesis
    by (subst m, subst with_fallback) (use m in \<open>auto simp: prod_eq_iff\<close>)
qed

lemma upload_resolveIndex_eq:
  "upload_resolveIndex env opts k =
     (case truthy_str (uo_feedIndex opts) of
        Some i \<Rightarrow> ([], Inr (parseInt i 0))
      | None \<Rightarrow>
         (let m = fetchNextFeedIndex env k (str_or (uo_gateway opts) (DEFAULT_GATEWAY_URL env)) None
          in (fst m @ (if snd m = Inr Null \<and> \<not> uo_quiet opts
                       then [SpinnerWarn ''Could not fetch feed index, using default: 0'']
                       else []),
              if snd m = Inr Null then Inr (Num 0) else snd m)))"
  by (simp add: upload_resolveIndex_def resolveIndex_fallback [OF refl] io_return_def Let_def
      split: option.splits)

lemma feed_resolveIndex_eq:
  "feed_resolveIndex env opts k topic =
     (case truthy_str (fo_index opts) of
        Some i \<Rightarrow> ([], Inr (parseInt i 0))
      | None \<Rightarrow>
         (let m = fetchNextFeedIndex env k (str_or (fo_gateway opts) (DEFAULT_GATEWAY_URL env))
                    (Some topic)
          in (fst m @ (if snd m = Inr Null \<and> \<not> fo_quiet opts
                       then [SpinnerWarn ''Could not fetch feed index, using default: 0'']
                       else []),
              if snd m = Inr Null then Inr (Num 0) else snd m)))"
  by (simp add: feed_resolveIndex_def resolveIndex_fallback [OF refl] io_return_def Let_def
      split: option.splits)




lemma truthy_str_decimal: "is_decimal s \<Longrightarrow> truthy_str (Some s) = Some s"
  by (simp add: truthy_str_def is_decimal_def)

lemma feed_projectKeys_eq:
  "feed_projectKeys env opts =
     ([], case spec_signerKey env (fo_key opts) (fo_project opts) of
            Inl e \<Rightarrow> Inl e
          | Inr k \<Rightarrow> Inr (if truthy_str (fo_project opts) = None then Undefined else Str k, k))"
  by (simp add: feed_projectKeys_def spec_signerKey_def io_return_def io_lift_def io_bind_def
      split: option.splits sum.splits)

lemma upload_feedOwnerKey_eq:
  "upload_feedOwnerKey env opts = ([], spec_signerKey env (uo_key opts) (uo_project opts))"
  by (simp add: upload_feedOwnerKey_def spec_signerKey_def io_return_def io_lift_def io_bind_def
      split: option.splits sum.splits)





lemma fst_io_bind:
  "fst (io_bind m f) = fst m @ (case snd m of Inl e \<Rightarrow> [] | Inr x \<Rightarrow> fst (f x))"
  by (cases m) (simp add: io_bind_def split: sum.splits prod.splits)

lemma snd_io_bind:
  "snd (io_bind m f) = (case snd m of Inl e \<Rightarrow> Inl e | Inr x \<Rightarrow> snd (f x))"
  by (cases m) (simp add: io_bind_def split: sum.splits prod.splits)



lemma sample_valid:
  "matches_hex64 sample_key" "matches_hex64 sample_batch" "matches_hex64 sample_reference"
  by (simp_all add: matches_hex64_def hex64_def is_hex_char_def sample_key_def sample_batch_def
      sample_reference_def)

lemma sample_env_simps:
  "crypto_of (sample_env g) = sample_crypto"
  "axios_get (sample_env g) = g"
  "loadFiles (sample_env g) p = Inr [''index.html'']"
  "writeFeedUpdate (sample_env g) req = Inr ()"
  "lib_normalizeProjectSlug (sample_env g) = sample_slug"
  "lib_deriveProjectKey (sample_env g) = sample_derive"
  "DEFAULT_GATEWAY_URL (sample_env g) = ''https://bzz.sh''"
  "readContract (sample_env g) rq =
     (if rpc_url rq = ''https://rpc.gnosis.gateway.fm'' then Inr 22
      else Inl (Error ''HTTP request failed''))"
  "uploadFiles (sample_env g) cfg files =
     Inr ''aaaaaaaaaaaaaaaaaaaaaaaaaaaaaaaaaaaaaaaaaaaaaaaaaaaaaaaaaaaaaaaa''"
  by (simp_all add: sample_env_def)













lemma depth_Null_fallback:
  assumes "snd (fetchBatchDepth env b r) = Inr Null"
  shows "readContract env (batchDepth_request
           (case r of None \<Rightarrow> ''https://rpc.gnosis.gateway.fm'' | Some u \<Rightarrow> u)
           (if take 2 b = ''0x'' then b else ''0x'' @ b)) \<noteq> Inr d"
  using assms by (auto simp: fetchBatchDepth_cases Let_def)

lemma sample_nonempty: "sample_batch \<noteq> []" "sample_key \<noteq> []"
  by (simp_all add: sample_batch_def sample_key_def)

lemmas eval_defs = sample_nonempty
  upload_action_def upload_feedUpdate_def feed_action_def sample_upload_options_def
  sample_feed_options_def sample_valid sample_env_simps fst_io_bind snd_io_bind io_lift_def
  io_call_def io_return_def io_throw_def upload_resolveDepth_eq upload_resolveIndex_eq
  feed_resolveDepth_eq feed_resolveIndex_eq feed_projectKeys_eq
  upload_feedOwnerKey_eq spec_signerKey_def truthy_str_def str_or_def fetchBatchDepth_cases
  fetchNextFeedIndex_cases Let_def batchDepth_request_def sample_owner responds_def
  validateStatus_def indexOfResponse_def updateFeed_def topic_of_def get_prop_def opt_val_def
  js_nullish_def js_or_def obs_append





















subsection \<open>The feed write of \<^verbatim>\<open>upload --feed\<close>, the RPC endpoint of \<^verbatim>\<open>feed update\<close>, validation\<close>

text \<open>
  Claim C1.  \<^verbatim>\<open>upload --feed\<close> with a valid key and batch id: the upload command
  passes the key to \<^verbatim>\<open>updateFeed\<close> under the property name \<^verbatim>\<open>reserveKey\<close>, while
  \<^verbatim>\<open>updateFeed\<close> reads \<^verbatim>\<open>options.vaultKey\<close>; the request handed to
  \<^verbatim>\<open>writeFeedUpdate\<close> has \<^verbatim>\<open>vaultPrivateKey\<close> undefined.  \<^verbatim>\<open>feed update\<close>, on the same
  key, hands over the reserve key.
\<close>

theorem upload_feed_write_vault_key:
  "map vaultPrivateKey
     (write_requests (fst (upload_action (sample_env (responds 404 [] Undefined)) ''./dist''
                             sample_upload_options)))
     = [Undefined]
   \<and> map vaultPrivateKey
       (write_requests (fst (feed_action (sample_env (responds 404 [] Undefined))
                               sample_feed_options)))
     = [Str sample_key]"
  by (simp add: eval_defs)

text \<open>
  Claim C2.  \<^verbatim>\<open>fetchBatchDepth\<close> reads \<^verbatim>\<open>batchDepth(bytes32)\<close> of the PostageStamp
  contract through the URL it is given, the public Gnosis RPC URL by default, and
  \<^verbatim>\<open>upload\<close> gives it the \<^verbatim>\<open>--gnosis-rpc\<close> option.  \<^verbatim>\<open>feed update\<close> gives it the
  gateway URL: the contract read of its depth resolution goes to the Swarm
  gateway.
\<close>

theorem feed_depth_rpc_endpoint:
  "rpc_requests (fst (fetchBatchDepth env b None))
     = [batchDepth_request ''https://rpc.gnosis.gateway.fm''
          (if take 2 b = ''0x'' then b else ''0x'' @ b)]
   \<and> rpc_requests (fst (fetchBatchDepth env b (Some u)))
     = [batchDepth_request u (if take 2 b = ''0x'' then b else ''0x'' @ b)]
   \<and> map rpc_url
       (rpc_requests (fst (upload_action (sample_env (responds 404 [] Undefined)) ''./dist''
          (sample_upload_options\<lparr>uo_gnosisRpc := Some ''https://rpc.example''\<rparr>))))
     = [''https://rpc.example'']
   \<and> map rpc_url
       (rpc_requests (fst (feed_action (sample_env (responds 404 [] Undefined))
          (sample_feed_options\<lparr>fo_gateway := Some ''https://gateway.example''\<rparr>))))
     = [''https://gateway.example'']"
  by (simp add: eval_defs)

lemma feedUrl_sample_key:
  "feedUrl ''https://bzz.sh'' (replicate 20 17) (replicate 32 0) =
    ''https://bzz.sh/feeds/1111111111111111111111111111111111111111/0000000000000000000000000000000000000000000000000000000000000000''"
  by (simp add: feedUrl_def bytesToHex_def replicate_numeral byte_hex_pair digit_char_def
      char_eq_char_of eq_commute [of "char_of _"])

text \<open>
  Claim C5.  \<^verbatim>\<open>upload\<close> rejects the batch id \<^verbatim>\<open>xyz\<close> before anything else happens.
  \<^verbatim>\<open>feed update\<close> only checks that a batch id is present: with batch id \<^verbatim>\<open>xyz\<close>
  it goes on to read the feed from the gateway, hands \<^verbatim>\<open>xyz\<close> to the feed write
  and ends without an error.
\<close>

theorem feed_batch_id_not_validated:
  "\<not> matches_hex64 ''xyz''
   \<and> upload_action (sample_env (responds 404 [] Undefined)) ''./dist''
        (sample_upload_options\<lparr>uo_batchId := ''xyz''\<rparr>)
     = ([], Inl (Error ''Invalid batch ID format (expected 64 hex characters)''))
   \<and> http_gets (fst (feed_action (sample_env (responds 404 [] Undefined))
                       (sample_feed_options\<lparr>fo_batchId := Some ''xyz''\<rparr>)))
     = [''https://bzz.sh/feeds/1111111111111111111111111111111111111111/0000000000000000000000000000000000000000000000000000000000000000'']
   \<and> map wr_batchId
       (write_requests (fst (feed_action (sample_env (responds 404 [] Undefined))
                               (sample_feed_options\<lparr>fo_batchId := Some ''xyz''\<rparr>))))
     = [Str ''xyz'']
   \<and> snd (feed_action (sample_env (responds 404 [] Undefined))
            (sample_feed_options\<lparr>fo_batchId := Some ''xyz''\<rparr>)) = Inr ()"
proof -
  have "\<not> matches_hex64 ''xyz''"
    by (simp add: matches_hex64_def hex64_def)
  then show ?thesis
    by (simp add: eval_defs feedUrl_sample_key)
qed

subsection \<open>The slug of a project name\<close>

lemma hyphen_not_alnum: "\<not> is_slug_alnum (CHR ''-'')"
  by (simp add: is_slug_alnum_def)

lemma set_collapse_runs:
  "c \<in> set (collapse_runs s) \<Longrightarrow> is_slug_alnum c \<or> c = CHR ''-''"
  by (induction s rule: collapse_runs.induct) (auto split: if_splits)

lemma filter_dropWhile_neg:
  "(\<And>x. Q x \<Longrightarrow> \<not> P x) \<Longrightarrow> filter P (dropWhile Q xs) = filter P xs"
  by (induction xs) auto

lemma filter_collapse_runs:
  "filter is_slug_alnum (collapse_runs s) = filter is_slug_alnum s"
  by (induction s rule: collapse_runs.induct)
     (simp_all add: hyphen_not_alnum filter_dropWhile_neg)

lemma filter_trim_hyphens:
  "filter is_slug_alnum (trim_hyphens x) = filter is_slug_alnum x"
proof -
  have A: "filter is_slug_alnum (dropWhile (\<lambda>c. c = CHR ''-'') xs) = filter is_slug_alnum xs"
    for xs
    by (rule filter_dropWhile_neg) (use hyphen_not_alnum in auto)
  show ?thesis
    by (simp add: trim_hyphens_def A flip: rev_filter)
qed

lemma collapse_runs_starts_alnum:
  "collapse_runs (dropWhile (\<lambda>x. \<not> is_slug_alnum x) cs) = []
   \<or> is_slug_alnum (hd (collapse_runs (dropWhile (\<lambda>x. \<not> is_slug_alnum x) cs)))"
proof (cases "dropWhile (\<lambda>x. \<not> is_slug_alnum x) cs")
  case Nil
  show ?thesis unfolding Nil by simp
next
  case (Cons a r)
  then have "is_slug_alnum a"
    using hd_dropWhile [of "\<lambda>x. \<not> is_slug_alnum x" cs] by simp
  with Cons show ?thesis by simp
qed

lemma no_double_hyphen_collapse: "\<not> sublist ''--'' (collapse_runs s)"
proof (induction s rule: collapse_runs.induct)
  case 1
  then show ?case by simp
next
  case (2 c cs)
  show ?case
  proof (cases "is_slug_alnum c")
    case True
    then have "c \<noteq> CHR ''-''" using hyphen_not_alnum by auto
    with True 2 show ?thesis by (simp add: sublist_Cons_right)
  next
    case False
    let ?r = "collapse_runs (dropWhile (\<lambda>x. \<not> is_slug_alnum x) cs)"
    from collapse_runs_starts_alnum [of cs] have "\<not> prefix ''-'' ?r"
      using hyphen_not_alnum by (cases ?r) auto
    with False 2 show ?thesis by (simp add: sublist_Cons_right)
  qed
qed

lemma trim_hyphens_split:
  "dropWhile (\<lambda>c. c = CHR ''-'') x
     = trim_hyphens x
       @ rev (takeWhile (\<lambda>c. c = CHR ''-'') (rev (dropWhile (\<lambda>c. c = CHR ''-'') x)))"
proof -
  let ?h = "\<lambda>c. c = CHR ''-''"
  let ?y = "dropWhile ?h x"
  have "rev (takeWhile ?h (rev ?y) @ dropWhile ?h (rev ?y)) = rev (rev ?y)"
    by (simp only: takeWhile_dropWhile_id)
  then show ?thesis
    by (simp only: rev_append rev_rev_ident trim_hyphens_def)
qed

lemma sublist_trim_hyphens: "sublist (trim_hyphens x) x"
proof -
  let ?h = "\<lambda>c. c = CHR ''-''"
  have "x = takeWhile ?h x @ dropWhile ?h x" by simp
  then have "x = takeWhile ?h x @ trim_hyphens x
                 @ rev (takeWhile ?h (rev (dropWhile ?h x)))"
    using trim_hyphens_split [of x] by simp
  then show ?thesis unfolding sublist_def by (intro exI)
qed

lemma last_trim_hyphens:
  "trim_hyphens x \<noteq> [] \<Longrightarrow> last (trim_hyphens x) \<noteq> CHR ''-''"
  using hd_dropWhile [of "\<lambda>c. c = CHR ''-''" "rev (dropWhile (\<lambda>c. c = CHR ''-'') x)"]
  by (simp add: trim_hyphens_def last_rev)

lemma hd_trim_hyphens:
  assumes "trim_hyphens x \<noteq> []"
  shows "hd (trim_hyphens x) \<noteq> CHR ''-''"
proof -
  let ?h = "\<lambda>c. c = CHR ''-''"
  let ?y = "dropWhile ?h x"
  have y: "?y \<noteq> []"
  proof
    assume e: "?y = []"
    have "trim_hyphens x = []"
      unfolding trim_hyphens_def e by simp
    with assms show False by contradiction
  qed
  have hy: "\<not> ?h (hd ?y)"
    using y by (rule hd_dropWhile)
  have "hd ?y = hd (trim_hyphens x @ rev (takeWhile ?h (rev ?y)))"
    by (rule arg_cong [OF trim_hyphens_split])
  also have "\<dots> = hd (trim_hyphens x)"
    using assms by (rule hd_append2)
  finally have eq: "hd ?y = hd (trim_hyphens x)" .
  from hy show ?thesis unfolding eq .
qed

lemma set_trim_hyphens: "set (trim_hyphens x) \<subseteq> set x"
  using set_mono_sublist [OF sublist_trim_hyphens] .

lemma slug_of_empty_iff:
  "slug_of name = [] \<longleftrightarrow> (\<forall>c \<in> set (toLowerCase name). \<not> is_slug_alnum c)"
proof
  assume "slug_of name = []"
  then have "trim_hyphens (collapse_runs (toLowerCase name)) = []"
    by (simp add: slug_of_def)
  then have "filter is_slug_alnum (trim_hyphens (collapse_runs (toLowerCase name))) = []"
    by simp
  then have "filter is_slug_alnum (toLowerCase name) = []"
    by (simp add: filter_trim_hyphens filter_collapse_runs)
  then show "\<forall>c \<in> set (toLowerCase name). \<not> is_slug_alnum c"
    by (simp add: filter_empty_conv)
next
  assume "\<forall>c \<in> set (toLowerCase name). \<not> is_slug_alnum c"
  then have "filter is_slug_alnum (collapse_runs (toLowerCase name)) = []"
    by (simp add: filter_collapse_runs filter_empty_conv)
  then have "\<forall>c \<in> set (collapse_runs (toLowerCase name)). c = CHR ''-''"
    using set_collapse_runs by (auto simp: filter_empty_conv)
  then have e: "dropWhile (\<lambda>c. c = CHR ''-'') (collapse_runs (toLowerCase name)) = []"
    by simp
  show "slug_of name = []"
    unfolding slug_of_def trim_hyphens_def e by simp
qed

lemma slug_of_props:
  assumes "slug_of name \<noteq> []"
  shows "length (slug_of name) \<le> 50"
    and "\<forall>c \<in> set (slug_of name). is_slug_alnum c \<or> c = CHR ''-''"
    and "is_slug_alnum (hd (slug_of name))"
    and "\<not> sublist ''--'' (slug_of name)"
    and "length (trim_hyphens (collapse_runs (toLowerCase name))) \<le> 50 \<longrightarrow>
           is_slug_alnum (last (slug_of name))"
proof -
  let ?c = "collapse_runs (toLowerCase name)"
  let ?t = "trim_hyphens ?c"
  from assms have t: "?t \<noteq> []" by (auto simp: slug_of_def)
  show "length (slug_of name) \<le> 50" by (simp add: slug_of_def)
  have sub: "set (slug_of name) \<subseteq> set ?c"
    using set_take_subset [of 50 ?t] set_trim_hyphens [of ?c] by (auto simp: slug_of_def)
  then show chars: "\<forall>c \<in> set (slug_of name). is_slug_alnum c \<or> c = CHR ''-''"
    using set_collapse_runs by blast
  have "hd (slug_of name) = hd ?t" using t by (simp add: slug_of_def)
  moreover have "hd (slug_of name) \<in> set (slug_of name)" using assms by simp
  ultimately show "is_slug_alnum (hd (slug_of name))"
    using chars hd_trim_hyphens [OF t] by auto
  have "sublist (take 50 ?t) ?t" by (rule sublist_take)
  then have sl: "sublist (slug_of name) ?c"
    unfolding slug_of_def
    by (rule sublist_order.order_trans) (rule sublist_trim_hyphens)
  show "\<not> sublist ''--'' (slug_of name)"
  proof
    assume "sublist ''--'' (slug_of name)"
    then have "sublist ''--'' ?c"
      using sl by (rule sublist_order.order_trans)
    with no_double_hyphen_collapse [of "toLowerCase name"] show False by simp
  qed
  show "length ?t \<le> 50 \<longrightarrow> is_slug_alnum (last (slug_of name))"
  proof
    assume "length ?t \<le> 50"
    then have e: "slug_of name = ?t" by (simp add: slug_of_def)
    have "last ?t \<in> set (slug_of name)" using t e by simp
    with chars last_trim_hyphens [OF t] e show "is_slug_alnum (last (slug_of name))" by auto
  qed
qed

text \<open>
  Claim C9, for the model of \<^verbatim>\<open>normalizeProjectSlug\<close> written from the
  specification.  \<^verbatim>\<open>"My Blog!!"\<close> gives \<^verbatim>\<open>"my-blog"\<close> and \<^verbatim>\<open>"  "\<close> is rejected.
  The function fails exactly when the lowercased name has no character in
  \<^verbatim>\<open>[a-z0-9]\<close>.  A slug it returns is the lowercased name with its runs
  collapsed, trimmed and cut to 50 characters; it is not empty, has at most 50
  characters, all in \<^verbatim>\<open>[a-z0-9-]\<close>, never two hyphens in a row, starts with a
  letter or digit, and ends with one unless it was cut.
\<close>

theorem normalize_slug:
  "normalizeProjectSlug ''My Blog!!'' = Inr ''my-blog''
   \<and> normalizeProjectSlug ''  '' = Inl (Error ''InvalidSlug'')
   \<and> ((\<exists>e. normalizeProjectSlug name = Inl e)
        \<longleftrightarrow> (\<forall>c \<in> set (toLowerCase name). \<not> is_slug_alnum c))
   \<and> (\<forall>slug. normalizeProjectSlug name = Inr slug \<longrightarrow>
         slug = take 50 (trim_hyphens (collapse_runs (toLowerCase name)))
         \<and> slug \<noteq> [] \<and> length slug \<le> 50
         \<and> (\<forall>c \<in> set slug. is_slug_alnum c \<or> c = CHR ''-'')
         \<and> \<not> sublist ''--'' slug
         \<and> is_slug_alnum (hd slug)
         \<and> (length (trim_hyphens (collapse_runs (toLowerCase name))) \<le> 50 \<longrightarrow>
              is_slug_alnum (last slug)))"
proof -
  have a: "normalizeProjectSlug ''My Blog!!'' = Inr ''my-blog''"
    by (simp add: normalizeProjectSlug_def slug_of_def trim_hyphens_def
        toLowerCase_def is_slug_alnum_def Let_def char_of_eq_iff take_bit_eq_mod)
  have b: "normalizeProjectSlug ''  '' = Inl (Error ''InvalidSlug'')"
    by (simp add: normalizeProjectSlug_def slug_of_def trim_hyphens_def
        toLowerCase_def is_slug_alnum_def Let_def)
  have c: "(\<exists>e. normalizeProjectSlug name = Inl e)
        \<longleftrightarrow> (\<forall>c \<in> set (toLowerCase name). \<not> is_slug_alnum c)"
    using slug_of_empty_iff [of name] by (auto simp: normalizeProjectSlug_def)
  have d: "normalizeProjectSlug name = Inr slug \<Longrightarrow>
         slug = take 50 (trim_hyphens (collapse_runs (toLowerCase name)))
         \<and> slug \<noteq> [] \<and> length slug \<le> 50
         \<and> (\<forall>c \<in> set slug. is_slug_alnum c \<or> c = CHR ''-'')
         \<and> \<not> sublist ''--'' slug
         \<and> is_slug_alnum (hd slug)
         \<and> (length (trim_hyphens (collapse_runs (toLowerCase name))) \<le> 50 \<longrightarrow>
              is_slug_alnum (last slug))" for slug
  proof -
    assume "normalizeProjectSlug name = Inr slug"
    then have s: "slug_of name \<noteq> []" "slug = slug_of name"
      by (auto simp: normalizeProjectSlug_def split: if_splits)
    from slug_of_props [OF s(1)] s show ?thesis
      by (simp add: slug_of_def)
  qed
  from a b c d show ?thesis by blast
qed

theorem normalize_slug_witness:
  "normalizeProjectSlug ''My Blog!!'' = Inr ''my-blog''
   \<and> length ''my-blog'' \<le> 50
   \<and> \<not> sublist ''--'' ''my-blog''
   \<and> is_slug_alnum (hd ''my-blog'') \<and> is_slug_alnum (last ''my-blog'')"
proof -
  have a: "normalizeProjectSlug ''My Blog!!'' = Inr ''my-blog''"
    by (simp add: normalizeProjectSlug_def slug_of_def trim_hyphens_def
        toLowerCase_def is_slug_alnum_def Let_def char_of_eq_iff take_bit_eq_mod)
  have l: "length (trim_hyphens (collapse_runs (toLowerCase ''My Blog!!''))) \<le> 50"
    by (simp add: trim_hyphens_def toLowerCase_def is_slug_alnum_def Let_def)
  from normalize_slug [of "''My Blog!!''", THEN conjunct2, THEN conjunct2, THEN conjunct2,
      THEN spec, THEN mp, OF a] l a
  show ?thesis by blast
qed


end
